theory Spec2Isabelle
  imports Main
begin

section \<open>Strings and regular expressions of the host language\<close>

text \<open>
  Source strings are modelled as \<^typ>\<open>string\<close>: one \<^typ>\<open>char\<close> per code unit, restricted
  to code units below 256.  The character classes are the ones the regular expressions of
  the sources use: \<open>\w\<close>, \<open>\s\<close>, \<open>\d\<close>, \<open>.\<close>, \<open>[\s\S]\<close>, a literal character and a
  negated single character such as \<open>[^)]\<close>.
\<close>

definition is_word :: "char \<Rightarrow> bool" where
  "is_word c \<longleftrightarrow>
     c \<in> set ''abcdefghijklmnopqrstuvwxyzABCDEFGHIJKLMNOPQRSTUVWXYZ0123456789_''"

definition is_digit :: "char \<Rightarrow> bool" where
  "is_digit c \<longleftrightarrow> c \<in> set ''0123456789''"

definition is_space :: "char \<Rightarrow> bool" where
  "is_space c \<longleftrightarrow>
     c \<in> set [CHR 0x09, CHR 0x0A, CHR 0x0B, CHR 0x0C, CHR 0x0D, CHR 0x20, CHR 0xA0]"

definition is_line_terminator :: "char \<Rightarrow> bool" where
  "is_line_terminator c \<longleftrightarrow> c = CHR 0x0A \<or> c = CHR 0x0D"

datatype cset = Word | Space | Digit | AnyCh | Dot | Ch char | NotCh char

fun in_cset :: "cset \<Rightarrow> char \<Rightarrow> bool" where
  "in_cset Word c = is_word c"
| "in_cset Space c = is_space c"
| "in_cset Digit c = is_digit c"
| "in_cset AnyCh c = True"
| "in_cset Dot c = (\<not> is_line_terminator c)"
| "in_cset (Ch d) c = (c = d)"
| "in_cset (NotCh d) c = (c \<noteq> d)"

text \<open>
  The regular expressions: \<open>Str w\<close> is a literal word, \<open>Star\<close> the greedy \<open>*\<close>, \<open>LazyStar\<close>
  the lazy \<open>*?\<close>, \<open>Opt\<close> the greedy \<open>?\<close>, \<open>Grp i\<close> the capture group number \<open>i\<close>,
  \<open>WordB\<close> the assertion \<open>\b\<close> and \<open>EndLine\<close> the assertion \<open>$\<close> under the flag \<open>m\<close>.
\<close>

datatype regex =
    Eps
  | Atom cset
  | Str string
  | Seq regex regex
  | Alt regex regex
  | Star regex
  | LazyStar regex
  | Opt regex
  | Grp nat regex
  | WordB
  | EndLine

definition Plus :: "regex \<Rightarrow> regex" where
  "Plus r = Seq r (Star r)"

fun seqs :: "regex list \<Rightarrow> regex" where
  "seqs [] = Eps"
| "seqs [r] = r"
| "seqs (r # rs) = Seq r (seqs rs)"

text \<open>
  A matcher state: the character before the current position (for \<open>\b\<close>), the input that
  is left, and the capture groups set so far (the most recent first).
\<close>

datatype mstate = MState (prev: "char option") (rest: string) (caps: "(nat \<times> string) list")

fun strip_prefix :: "string \<Rightarrow> string \<Rightarrow> string option" where
  "strip_prefix [] s = Some s"
| "strip_prefix (c # w) [] = None"
| "strip_prefix (c # w) (d # s) = (if c = d then strip_prefix w s else None)"

definition word_at :: "char option \<Rightarrow> bool" where
  "word_at p = (case p of None \<Rightarrow> False | Some c \<Rightarrow> is_word c)"

definition next_char :: "string \<Rightarrow> char option" where
  "next_char s = (case s of [] \<Rightarrow> None | c # _ \<Rightarrow> Some c)"

text \<open>
  The backtracking matcher returns every way the expression matches at the current
  position, in the order in which a backtracking engine tries them: the head of the list
  is the match the engine reports.  An iteration of a quantifier with lower bound 0 that
  consumes nothing is rejected, as the language standard has it.
\<close>

function matchr :: "regex \<Rightarrow> mstate \<Rightarrow> mstate list" where
  "matchr Eps st = [st]"
| "matchr (Atom cs) st =
     (case rest st of
        [] \<Rightarrow> []
      | c # s \<Rightarrow> if in_cset cs c then [MState (Some c) s (caps st)] else [])"
| "matchr (Str w) st =
     (case strip_prefix w (rest st) of
        None \<Rightarrow> []
      | Some s \<Rightarrow> [MState (if w = [] then prev st else Some (last w)) s (caps st)])"
| "matchr (Seq a b) st = concat (map (matchr b) (matchr a st))"
| "matchr (Alt a b) st = matchr a st @ matchr b st"
| "matchr (Star r) st =
     concat (map (\<lambda>st'. if length (rest st') < length (rest st)
                          then matchr (Star r) st' else [])
                 (matchr r st)) @ [st]"
| "matchr (LazyStar r) st =
     st # concat (map (\<lambda>st'. if length (rest st') < length (rest st)
                               then matchr (LazyStar r) st' else [])
                      (matchr r st))"
| "matchr (Opt r) st =
     filter (\<lambda>st'. length (rest st') < length (rest st)) (matchr r st) @ [st]"
| "matchr (Grp i r) st =
     map (\<lambda>st'. MState (prev st') (rest st')
                   ((i, take (length (rest st) - length (rest st')) (rest st)) # caps st'))
         (matchr r st)"
| "matchr WordB st = (if word_at (prev st) \<noteq> word_at (next_char (rest st)) then [st] else [])"
| "matchr EndLine st =
     (case rest st of
        [] \<Rightarrow> [st]
      | c # _ \<Rightarrow> if is_line_terminator c then [st] else [])"
  by pat_completeness auto
termination
  by (relation "measures [\<lambda>(r, st). size r, \<lambda>(r, st). length (rest st)]") auto


text \<open>
  \<open>String.prototype.match\<close> without the flag \<open>g\<close> and \<open>RegExp.prototype.test\<close>: the first
  position at which the expression matches, tried from left to right.
\<close>

fun search_from :: "regex \<Rightarrow> char option \<Rightarrow> string \<Rightarrow> mstate option" where
  "search_from r p [] = (case matchr r (MState p [] []) of st # _ \<Rightarrow> Some st | [] \<Rightarrow> None)"
| "search_from r p (c # s) =
     (case matchr r (MState p (c # s) []) of
        st # _ \<Rightarrow> Some st
      | [] \<Rightarrow> search_from r (Some c) s)"

definition js_match :: "regex \<Rightarrow> string \<Rightarrow> (nat \<times> string) list option" where
  "js_match r s = map_option caps (search_from r None s)"

definition js_test :: "regex \<Rightarrow> string \<Rightarrow> bool" where
  "js_test r s = (search_from r None s \<noteq> None)"

text \<open>\<open>match[i]\<close>; \<open>None\<close> is \<open>undefined\<close>, a group that took no part in the match.\<close>

definition group :: "nat \<Rightarrow> (nat \<times> string) list \<Rightarrow> string option" where
  "group i m = map_of m i"

text \<open>\<open>x || ''\<close> on a string that may be \<open>undefined\<close>.\<close>

definition or_empty :: "string option \<Rightarrow> string" where
  "or_empty x = (case x of None \<Rightarrow> [] | Some s \<Rightarrow> s)"

text \<open>
  \<open>String.prototype.replace(re, '')\<close> with the flag \<open>g\<close>: every match, from left to right,
  is removed; after an empty match the search moves on by one character.
\<close>

function remove_all :: "regex \<Rightarrow> char option \<Rightarrow> string \<Rightarrow> string" where
  "remove_all r p s =
     (case matchr r (MState p s []) of
        st # _ \<Rightarrow>
          if length (rest st) < length s then remove_all r (prev st) (rest st)
          else (case s of [] \<Rightarrow> [] | c # s' \<Rightarrow> c # remove_all r (Some c) s')
      | [] \<Rightarrow> (case s of [] \<Rightarrow> [] | c # s' \<Rightarrow> c # remove_all r (Some c) s'))"
  by pat_completeness auto
termination
  by (relation "measure (\<lambda>(r, p, s). length s)") auto

fun includes_str :: "string \<Rightarrow> string \<Rightarrow> bool" where
  "includes_str [] w = (w = [])"
| "includes_str (c # s) w = (strip_prefix w (c # s) \<noteq> None \<or> includes_str s w)"

definition endsWith :: "string \<Rightarrow> string \<Rightarrow> bool" where
  "endsWith s w = (strip_prefix (rev w) (rev s) \<noteq> None)"

definition trim :: "string \<Rightarrow> string" where
  "trim s = rev (dropWhile is_space (rev (dropWhile is_space s)))"

text \<open>\<open>String.prototype.split('\n')\<close>: never an empty list.\<close>

fun split_lines :: "string \<Rightarrow> string list" where
  "split_lines [] = [[]]"
| "split_lines (c # s) =
     (if c = CHR 0x0A then [] # split_lines s
      else (case split_lines s of l # ls \<Rightarrow> (c # l) # ls | [] \<Rightarrow> [[c]]))"

text \<open>Decimal digits of a number, as string conversion in a template literal gives them.\<close>

fun digit_char :: "nat \<Rightarrow> char" where
  "digit_char n = (''0123456789'' ! (n mod 10))"

fun show_nat :: "nat \<Rightarrow> string" where
  "show_nat n = (if n < 10 then [digit_char n] else show_nat (n div 10) @ [digit_char n])"

declare show_nat.simps [simp del]

text \<open>
  \<open>parseInt\<close> without a radix: leading white space is skipped, then a sign, then the prefix
  \<open>0x\<close> selects radix 16, then the longest run of digits of the radix is read; \<open>None\<close> is
  \<open>NaN\<close>, the result when that run is empty.  Numbers are exact integers here.
\<close>

definition digit_val :: "char \<Rightarrow> nat option" where
  "digit_val c =
     map_of (zip ''0123456789abcdef'' [0 ..< 16] @ zip ''ABCDEF'' [10 ..< 16]) c"

definition is_radix_digit :: "nat \<Rightarrow> char \<Rightarrow> bool" where
  "is_radix_digit radix c = (case digit_val c of Some v \<Rightarrow> v < radix | None \<Rightarrow> False)"

definition digits_value :: "nat \<Rightarrow> string \<Rightarrow> nat" where
  "digits_value radix s =
     foldl (\<lambda>n c. radix * n + (case digit_val c of Some v \<Rightarrow> v | None \<Rightarrow> 0)) 0 s"

definition parseInt :: "string \<Rightarrow> int option" where
  "parseInt s =
     (let s = dropWhile is_space s;
          sign = (if strip_prefix ''-'' s \<noteq> None then - 1 else (1::int));
          s = (if strip_prefix ''-'' s \<noteq> None \<or> strip_prefix ''+'' s \<noteq> None
               then drop 1 s else s);
          hex = (strip_prefix ''0x'' s \<noteq> None \<or> strip_prefix ''0X'' s \<noteq> None);
          radix = (if hex then 16 else 10);
          s = (if hex then drop 2 s else s);
          z = takeWhile (is_radix_digit radix) s
      in if z = [] then None else Some (sign * int (digits_value radix z)))"

text \<open>\<open>parseInt(x) || 1\<close>: \<open>NaN\<close> and 0 are falsy.\<close>

definition or_one :: "int option \<Rightarrow> int" where
  "or_one x = (case x of None \<Rightarrow> 1 | Some n \<Rightarrow> if n = 0 then 1 else n)"

text \<open>String conversion of a string that may be \<open>undefined\<close>.\<close>

definition to_str :: "string option \<Rightarrow> string" where
  "to_str x = (case x of None \<Rightarrow> ''undefined'' | Some s \<Rightarrow> s)"

definition show_int :: "int \<Rightarrow> string" where
  "show_int i = (if i < 0 then ''-'' @ show_nat (nat (- i)) else show_nat (nat i))"

section \<open>ASTParser\<close>

text \<open>
  Values of the host language, as far as the analyzer meets them: the input of \<open>analyze\<close>
  and the argument values the tree walk over a parsed JavaScript program evaluates.
  Numbers are integers here.
\<close>

datatype jsval = JUndefined | JNull | JBool bool | JNum int | JStr string | JObject

datatype node_type = Allocation | Deallocation

text \<open>\<open>args\<close> of a node: the raw argument text, or a list of evaluated values.\<close>

datatype node_args = ArgsStr string | ArgsArr "jsval list"

text \<open>
  A node of the body the parser returns.  A field the source leaves out of an object
  literal is \<open>None\<close> (\<open>undefined\<close>); \<open>n_inLoop\<close> is only ever read as
  \<open>astNode.inLoop || false\<close>, so a missing field is \<open>False\<close>.
\<close>

record ast_node =
  n_type :: node_type
  n_var :: "string option"
  n_line :: nat
  n_function :: "string option"
  n_args :: "node_args option"
  n_functionName :: "string option"
  n_inLoop :: bool
  n_nodeType :: string
  n_originalLine :: "string option"

record ast =
  body :: "ast_node list"
  source :: string

definition spaces0 :: regex where \<comment> \<open>\<open>\s*\<close>\<close>
  "spaces0 = Star (Atom Space)"

definition spaces1 :: regex where \<comment> \<open>\<open>\s+\<close>\<close>
  "spaces1 = Plus (Atom Space)"

definition word1 :: regex where \<comment> \<open>\<open>\w+\<close>\<close>
  "word1 = Plus (Atom Word)"

definition digits1 :: regex where \<comment> \<open>\<open>\d+\<close>\<close>
  "digits1 = Plus (Atom Digit)"

definition chr :: "char \<Rightarrow> regex" where
  "chr c = Atom (Ch c)"

fun alts :: "string list \<Rightarrow> regex" where \<comment> \<open>\<open>a|b|c\<close>\<close>
  "alts [] = Eps"
| "alts [w] = Str w"
| "alts (w # ws) = Alt (Str w) (alts ws)"

subsection \<open>removeComments\<close>

definition re_line_comment :: regex where \<comment> \<open>\<open>/\/\/.*$/gm\<close>\<close>
  "re_line_comment = seqs [Str ''//'', Star (Atom Dot), EndLine]"

definition re_block_comment :: regex where \<comment> \<open>\<open>/\/\*[\s\S]*?\*\//g\<close>\<close>
  "re_block_comment = seqs [Str ''/*'', LazyStar (Atom AnyCh), Str ''*/'']"

definition removeComments :: "string \<Rightarrow> string" where
  "removeComments code =
     (let cleaned = remove_all re_line_comment None code;
          cleaned = remove_all re_block_comment None cleaned
      in cleaned)"

subsection \<open>parseCAllocation\<close>

definition re_alloc_fn :: regex where \<comment> \<open>\<open>(malloc|calloc|realloc)\<close>, group 2\<close>
  "re_alloc_fn = Grp 2 (alts [''malloc'', ''calloc'', ''realloc''])"

definition re_alloc_args :: regex where \<comment> \<open>\<open>\(\s*([^)]+)\s*\)\<close>, group 3\<close>
  "re_alloc_args =
     seqs [chr CHR ''('', spaces0, Grp 3 (Plus (Atom (NotCh CHR '')''))), spaces0,
           chr CHR '')'']"

definition patterns :: "regex list" where
  \<open>patterns = [
     \<comment> \<open>\<open>/\w+\s+\*\s*(\w+)\s*=\s*(malloc|calloc|realloc)\s*\(\s*([^)]+)\s*\)/\<close>\<close>
     seqs [word1, spaces1, chr CHR ''*'', spaces0, Grp 1 word1, spaces0, chr CHR ''='',
           spaces0, re_alloc_fn, spaces0, re_alloc_args],
     \<comment> \<open>\<open>/\w+\*\s*(\w+)\s*=\s*(malloc|calloc|realloc)\s*\(\s*([^)]+)\s*\)/\<close>\<close>
     seqs [word1, chr CHR ''*'', spaces0, Grp 1 word1, spaces0, chr CHR ''='', spaces0,
           re_alloc_fn, spaces0, re_alloc_args],
     \<comment> \<open>\<open>/(\w+)\s*=\s*\([^)]*\)\s*(malloc|calloc|realloc)\s*\(\s*([^)]+)\s*\)/\<close>\<close>
     seqs [Grp 1 word1, spaces0, chr CHR ''='', spaces0, chr CHR ''('',
           Star (Atom (NotCh CHR '')'')), chr CHR '')'', spaces0, re_alloc_fn, spaces0,
           re_alloc_args],
     \<comment> \<open>\<open>/(\w+)\s*=\s*(malloc|calloc|realloc)\s*\(\s*([^)]+)\s*\)/\<close>\<close>
     seqs [Grp 1 word1, spaces0, chr CHR ''='', spaces0, re_alloc_fn, spaces0, re_alloc_args]]\<close>

definition re_new :: regex where \<comment> \<open>\<open>=\s*new\s+\w+\<close>\<close>
  "re_new = seqs [chr CHR ''='', spaces0, Str ''new'', spaces1, word1]"

definition re_new_parens :: regex where \<comment> \<open>\<open>\s*\(\s*([^)]*)\s*\)\<close>, group 2\<close>
  "re_new_parens =
     seqs [spaces0, chr CHR ''('', spaces0, Grp 2 (Star (Atom (NotCh CHR '')''))), spaces0,
           chr CHR '')'']"

definition re_new_brackets :: regex where \<comment> \<open>\<open>\s*\[\s*([^\]]+)\s*\]\<close>, group 2\<close>
  "re_new_brackets =
     seqs [spaces0, chr CHR ''['', spaces0, Grp 2 (Plus (Atom (NotCh CHR '']''))), spaces0,
           chr CHR '']'']"

definition cppPatterns :: "regex list" where
  \<open>cppPatterns = [
     \<comment> \<open>\<open>/\w+\s+\*\s*(\w+)\s*=\s*new\s+\w+\s*\(\s*([^)]*)\s*\)/\<close>\<close>
     seqs [word1, spaces1, chr CHR ''*'', spaces0, Grp 1 word1, spaces0, re_new, re_new_parens],
     \<comment> \<open>\<open>/\w+\*\s*(\w+)\s*=\s*new\s+\w+\s*\(\s*([^)]*)\s*\)/\<close>\<close>
     seqs [word1, chr CHR ''*'', spaces0, Grp 1 word1, spaces0, re_new, re_new_parens],
     \<comment> \<open>\<open>/\w+\s+\*\s*(\w+)\s*=\s*new\s+\w+/\<close>\<close>
     seqs [word1, spaces1, chr CHR ''*'', spaces0, Grp 1 word1, spaces0, re_new],
     \<comment> \<open>\<open>/\w+\*\s*(\w+)\s*=\s*new\s+\w+/\<close>\<close>
     seqs [word1, chr CHR ''*'', spaces0, Grp 1 word1, spaces0, re_new],
     \<comment> \<open>\<open>/\w+\s+\*\s*(\w+)\s*=\s*new\s+\w+\s*\[\s*([^\]]+)\s*\]/\<close>\<close>
     seqs [word1, spaces1, chr CHR ''*'', spaces0, Grp 1 word1, spaces0, re_new,
           re_new_brackets],
     \<comment> \<open>\<open>/\w+\*\s*(\w+)\s*=\s*new\s+\w+\s*\[\s*([^\]]+)\s*\]/\<close>\<close>
     seqs [word1, chr CHR ''*'', spaces0, Grp 1 word1, spaces0, re_new, re_new_brackets],
     \<comment> \<open>\<open>/(\w+)\s*=\s*new\s+\w+\s*\(\s*([^)]*)\s*\)/\<close>\<close>
     seqs [Grp 1 word1, spaces0, re_new, re_new_parens],
     \<comment> \<open>\<open>/(\w+)\s*=\s*new\s+\w+/\<close>\<close>
     seqs [Grp 1 word1, spaces0, re_new],
     \<comment> \<open>\<open>/(\w+)\s*=\s*new\s+\w+\s*\[\s*([^\]]+)\s*\]/\<close>\<close>
     seqs [Grp 1 word1, spaces0, re_new, re_new_brackets]]\<close>

text \<open>\<open>for (const pattern of ps) { const match = line.match(pattern); if (match) ... }\<close>\<close>

fun first_match :: "regex list \<Rightarrow> string \<Rightarrow> (nat \<times> string) list option" where
  "first_match [] s = None"
| "first_match (r # rs) s =
     (case js_match r s of Some m \<Rightarrow> Some m | None \<Rightarrow> first_match rs s)"

definition parseCAllocation ::
  "string \<Rightarrow> nat \<Rightarrow> string \<Rightarrow> string option \<Rightarrow> bool \<Rightarrow> ast_node option" where
  "parseCAllocation line lineNum originalLine functionName inLoop =
     (case first_match patterns line of
        Some m \<Rightarrow>
          Some \<lparr>n_type = Allocation, n_var = group 1 m, n_line = lineNum,
                n_function = group 2 m, n_args = Some (ArgsStr (or_empty (group 3 m))),
                n_functionName = functionName, n_inLoop = inLoop,
                n_nodeType = ''VariableDeclaration'',
                n_originalLine = Some (trim originalLine)\<rparr>
      | None \<Rightarrow>
         (case first_match cppPatterns line of
            Some m \<Rightarrow>
              (let isArray = (includes_str line ''['' \<and> includes_str line '']'')
               in Some \<lparr>n_type = Allocation, n_var = group 1 m, n_line = lineNum,
                        n_function = Some (if isArray then ''new[]'' else ''new''),
                        n_args = Some (ArgsStr (or_empty (group 2 m))),
                        n_functionName = functionName, n_inLoop = inLoop,
                        n_nodeType = ''VariableDeclaration'',
                        n_originalLine = Some (trim originalLine)\<rparr>)
          | None \<Rightarrow> None))"

subsection \<open>parseCDeallocation\<close>

definition re_free :: regex where \<comment> \<open>\<open>/free\s*\(\s*(\w+)\s*\)/\<close>\<close>
  "re_free =
     seqs [Str ''free'', spaces0, chr CHR ''('', spaces0, Grp 1 word1, spaces0, chr CHR '')'']"

definition re_delete_array :: regex where
  \<comment> \<open>\<open>/delete\s*\[\s*\]\s*(?:\(\s*)?(\w+)(?:\s*\))?/\<close>\<close>
  "re_delete_array =
     seqs [Str ''delete'', spaces0, chr CHR ''['', spaces0, chr CHR '']'', spaces0,
           Opt (Seq (chr CHR ''('') spaces0), Grp 1 word1, Opt (Seq spaces0 (chr CHR '')''))]"

definition re_delete :: regex where \<comment> \<open>\<open>/delete\s+(?:\(\s*)?(\w+)(?:\s*\))?/\<close>\<close>
  "re_delete =
     seqs [Str ''delete'', spaces1, Opt (Seq (chr CHR ''('') spaces0), Grp 1 word1,
           Opt (Seq spaces0 (chr CHR '')''))]"

definition dealloc_node :: "string option \<Rightarrow> nat \<Rightarrow> string \<Rightarrow> string \<Rightarrow> ast_node" where
  "dealloc_node v lineNum f originalLine =
     \<lparr>n_type = Deallocation, n_var = v, n_line = lineNum, n_function = Some f,
      n_args = None, n_functionName = None, n_inLoop = False,
      n_nodeType = ''CallExpression'', n_originalLine = Some (trim originalLine)\<rparr>"

definition parseCDeallocation :: "string \<Rightarrow> nat \<Rightarrow> string \<Rightarrow> ast_node option" where
  "parseCDeallocation line lineNum originalLine =
     (case js_match re_free line of
        Some freeMatch \<Rightarrow> Some (dealloc_node (group 1 freeMatch) lineNum ''free'' originalLine)
      | None \<Rightarrow>
         (case js_match re_delete_array line of
            Some deleteArrayMatch \<Rightarrow>
              Some (dealloc_node (group 1 deleteArrayMatch) lineNum ''delete[]'' originalLine)
          | None \<Rightarrow>
             (case js_match re_delete line of
                Some deleteMatch \<Rightarrow>
                  Some (dealloc_node (group 1 deleteMatch) lineNum ''delete'' originalLine)
              | None \<Rightarrow> None)))"


subsection \<open>parseC\<close>

definition re_func_head :: regex where \<comment> \<open>\<open>/(\w+)\s*\([^)]*\)\s*\{?/\<close>\<close>
  "re_func_head =
     seqs [Grp 1 word1, spaces0, chr CHR ''('', Star (Atom (NotCh CHR '')'')), chr CHR '')'',
           spaces0, Opt (chr CHR ''{'')]"

definition re_control :: regex where \<comment> \<open>\<open>/\b(if|while|for|switch)\s*\(/\<close>\<close>
  "re_control =
     seqs [WordB, Grp 1 (alts [''if'', ''while'', ''for'', ''switch'']), spaces0,
           chr CHR ''('']"

definition re_loop :: regex where \<comment> \<open>\<open>/\b(for|while|do)\s*\(/\<close>\<close>
  "re_loop = seqs [WordB, Grp 1 (alts [''for'', ''while'', ''do'']), spaces0, chr CHR ''('']"

text \<open>
  \<open>(trimmed.match(/\{/g) || []).length\<close>: the matches of a one-character expression are the
  occurrences of that character.
\<close>

definition count_char :: "char \<Rightarrow> string \<Rightarrow> int" where
  "count_char c s = int (length (filter (\<lambda>d. d = c) s))"

text \<open>The local variables of \<open>parseC\<close> that the callback of \<open>lines.forEach\<close> updates.\<close>

record parse_state =
  nodes :: "ast_node list"
  currentFunction :: "string option"
  braceDepth :: int
  inLoop :: bool
  loopDepth :: int
  currentStatement :: string
  statementStartLine :: nat
  inStatement :: bool

definition push_node :: "ast_node option \<Rightarrow> ast_node list \<Rightarrow> ast_node list" where
  "push_node x ns = (case x of Some n \<Rightarrow> ns @ [n] | None \<Rightarrow> ns)"

text \<open>The end of the callback: \<open>if (braceDepth === 0) { ... }\<close>.\<close>

definition close_scopes :: "parse_state \<Rightarrow> parse_state" where
  "close_scopes st =
     (if braceDepth st = 0 then
        (let st = (if inLoop st \<and> loopDepth st > 0
                   then (let st = st\<lparr>loopDepth := loopDepth st - 1\<rparr>
                         in if loopDepth st = 0 then st\<lparr>inLoop := False\<rparr> else st)
                   else st)
         in st\<lparr>currentFunction := None\<rparr>)
      else st)"

definition parseC_line :: "parse_state \<Rightarrow> nat \<Rightarrow> string \<Rightarrow> parse_state" where
  "parseC_line st0 index line =
     (let lineNum = index + 1;
          trimmed = trim line
      in if trimmed = [] then
           (if inStatement st0
            then st0\<lparr>currentStatement := currentStatement st0 @ '' '' @ trimmed\<rparr>
            else st0)
         else
           (let st = (case js_match re_func_head trimmed of
                        Some funcMatch \<Rightarrow>
                          if \<not> js_test re_control trimmed
                          then st0\<lparr>currentFunction := group 1 funcMatch\<rparr> else st0
                      | None \<Rightarrow> st0);
                st = (if js_test re_loop trimmed
                      then st\<lparr>inLoop := True, loopDepth := loopDepth st + 1\<rparr> else st);
                openBraces = count_char CHR ''{'' trimmed;
                closeBraces = count_char CHR ''}'' trimmed;
                st = st\<lparr>braceDepth := braceDepth st + (openBraces - closeBraces)\<rparr>
            in if endsWith trimmed [CHR 0x5C] \<or>
                  (\<not> endsWith trimmed '';'' \<and> \<not> endsWith trimmed ''{'' \<and>
                   \<not> endsWith trimmed ''}'')
               then
                 (if \<not> inStatement st
                  then st\<lparr>currentStatement := trimmed, statementStartLine := lineNum,
                          inStatement := True\<rparr>
                  else st\<lparr>currentStatement := currentStatement st @ '' '' @ trimmed\<rparr>)
               else
                 close_scopes
                   (if inStatement st then
                      (let completeStatement = currentStatement st @ '' '' @ trimmed;
                           startLine = (if statementStartLine st \<noteq> 0
                                        then statementStartLine st else lineNum);
                           alloc = parseCAllocation completeStatement startLine line
                                     (currentFunction st) (inLoop st);
                           dealloc = parseCDeallocation completeStatement startLine line
                       in st\<lparr>nodes := push_node dealloc (push_node alloc (nodes st)),
                               currentStatement := [], statementStartLine := 0,
                               inStatement := False\<rparr>)
                    else
                      (let alloc = parseCAllocation trimmed lineNum line
                                     (currentFunction st) (inLoop st);
                           dealloc = parseCDeallocation trimmed lineNum line
                       in st\<lparr>nodes := push_node dealloc (push_node alloc (nodes st))\<rparr>))))"

fun parseC_lines :: "parse_state \<Rightarrow> nat \<Rightarrow> string list \<Rightarrow> parse_state" where
  "parseC_lines st index [] = st"
| "parseC_lines st index (line # ls) = parseC_lines (parseC_line st index line) (index + 1) ls"

definition parseC :: "string \<Rightarrow> ast" where
  "parseC code =
     (let lines = split_lines code;
          st = parseC_lines
                 \<lparr>nodes = [], currentFunction = None, braceDepth = 0, inLoop = False,
                  loopDepth = 0, currentStatement = [], statementStartLine = 0,
                  inStatement = False\<rparr> 0 lines
      in \<lparr>body = nodes st, source = code\<rparr>)"

definition parseGeneric :: "string \<Rightarrow> ast" where
  "parseGeneric code = parseC code"

definition parsePython :: "string \<Rightarrow> ast" where
  "parsePython code = parseGeneric code"

definition parseJava :: "string \<Rightarrow> ast" where
  "parseJava code = parseGeneric code"

definition parseRust :: "string \<Rightarrow> ast" where
  "parseRust code = parseGeneric code"

definition parseGo :: "string \<Rightarrow> ast" where
  "parseGo code = parseGeneric code"

text \<open>
  The structural parser \<open>acorn\<close> is a library outside the repository.  It is a parameter:
  \<open>None\<close> when the global \<open>acorn\<close> is undefined; otherwise a function that gives, for a
  source text, \<open>None\<close> when \<open>acorn.parse\<close> raises and else the nodes that the tree walk
  \<open>convertAcornAST\<close> collects from the parsed program (whose \<open>source\<close> is the empty string,
  since a parsed program has no such field).
\<close>

type_synonym acorn = "(string \<Rightarrow> ast_node list option) option"

definition parseJavaScript :: "acorn \<Rightarrow> string \<Rightarrow> ast" where
  "parseJavaScript acorn code =
     (case acorn of
        None \<Rightarrow> parseGeneric code
      | Some parse_and_convert \<Rightarrow>
          (case parse_and_convert code of
             Some ns \<Rightarrow> \<lparr>body = ns, source = []\<rparr>
           | None \<Rightarrow> parseGeneric code))"

text \<open>
  \<open>ASTParser.parse\<close>.  No parser of the model raises, so the handlers that fall back to
  \<open>parseGeneric\<close> and then to an empty body have no branch here; the guard on the input is
  kept: an empty text raises inside the outer \<open>try\<close>, whose handler returns an empty body.
\<close>

definition parse :: "acorn \<Rightarrow> string \<Rightarrow> string \<Rightarrow> ast" where
  "parse acorn language code =
     (if code = [] then \<lparr>body = [], source = []\<rparr>
      else
        (let cleanedCode = removeComments code
         in if language = ''javascript'' then parseJavaScript acorn cleanedCode
            else if language = ''c'' \<or> language = ''cpp'' then parseC cleanedCode
            else if language = ''python'' then parsePython cleanedCode
            else if language = ''java'' then parseJava cleanedCode
            else if language = ''rust'' then parseRust cleanedCode
            else if language = ''go'' then parseGo cleanedCode
            else parseGeneric cleanedCode))"


section \<open>CONFIG\<close>

definition TYPE_SIZES_CHAR :: int where "TYPE_SIZES_CHAR = 1"
definition TYPE_SIZES_INT :: int where "TYPE_SIZES_INT = 4"
definition TYPE_SIZES_DOUBLE :: int where "TYPE_SIZES_DOUBLE = 8"
definition TYPE_SIZES_DEFAULT :: int where "TYPE_SIZES_DEFAULT = 4"

definition LANGUAGE_SIZES :: "(string \<times> int) list" where
  "LANGUAGE_SIZES =
     [(''javascript'', 8), (''python'', 8), (''rust'', 8), (''go'', 8), (''java'', 4),
      (''c'', 4), (''cpp'', 4)]"

section \<open>MemoryAnalyzer\<close>

record allocation =
  a_var :: "string option"
  a_line :: nat
  a_function :: "string option"
  a_size :: int
  a_lineText :: string
  a_inLoop :: bool
  a_inFunction :: bool
  a_functionName :: "string option"
  allocId :: string
  a_language :: string

record free_event =
  fe_var :: "string option"
  fe_line :: nat
  fe_lineText :: string
  fe_language :: string
  fe_isArray :: bool

record free_entry =
  f_var :: string
  f_line :: nat
  f_lineText :: string
  freedAllocId :: string

record leak =
  l_var :: string
  l_line :: nat
  l_function :: string
  l_size :: int
  l_inLoop :: bool
  l_fix :: string

record warning =
  w_type :: string
  w_line :: nat
  w_message :: string
  w_lineText :: string

record sample =
  s_line :: nat
  s_memory :: int

text \<open>The object \<open>analyze\<close> returns.\<close>

record analysis =
  allocations :: "allocation list"
  frees :: "free_entry list"
  leaks :: "leak list"
  warnings :: "warning list"
  timeline :: "sample list"

text \<open>
  The fields of a \<open>MemoryAnalyzer\<close> that its methods update.  \<open>this.allocations\<close> is a
  \<open>Map\<close> from a variable name to its array of live allocations; a \<open>Map\<close> iterates in the
  order in which its keys were first set, so it is an association list kept in that order.
\<close>

record tracker =
  this_allocations :: "(string \<times> allocation list) list"
  this_timeline :: "sample list"
  currentMemory :: int

definition map_has :: "(string \<times> 'v) list \<Rightarrow> string \<Rightarrow> bool" where
  "map_has m k = (map_of m k \<noteq> None)"

fun map_set :: "(string \<times> 'v) list \<Rightarrow> string \<Rightarrow> 'v \<Rightarrow> (string \<times> 'v) list" where
  "map_set [] k v = [(k, v)]"
| "map_set ((k', v') # m) k v = (if k' = k then (k, v) # m else (k', v') # map_set m k v)"

definition map_delete :: "(string \<times> 'v) list \<Rightarrow> string \<Rightarrow> (string \<times> 'v) list" where
  "map_delete m k = filter (\<lambda>(k', v). k' \<noteq> k) m"

subsection \<open>Size estimation\<close>

definition re_number :: regex where \<comment> \<open>\<open>/(\d+)/\<close>\<close>
  "re_number = Grp 1 digits1"

definition re_calloc :: regex where \<comment> \<open>\<open>/(\d+)\s*,\s*(\d+)/\<close>\<close>
  "re_calloc = seqs [Grp 1 digits1, spaces0, chr CHR '','', spaces0, Grp 2 digits1]"

definition re_sizeof :: regex where \<comment> \<open>\<open>sizeof\s*\([^)]+\)\<close>\<close>
  "re_sizeof =
     seqs [Str ''sizeof'', spaces0, chr CHR ''('', Plus (Atom (NotCh CHR '')'')), chr CHR '')'']"

definition sizeofPattern1 :: regex where \<comment> \<open>\<open>/(\d+)\s*\*\s*sizeof\s*\([^)]+\)/\<close>\<close>
  "sizeofPattern1 = seqs [Grp 1 digits1, spaces0, chr CHR ''*'', spaces0, re_sizeof]"

definition sizeofPattern2 :: regex where \<comment> \<open>\<open>/sizeof\s*\([^)]+\)\s*\*\s*(\d+)/\<close>\<close>
  "sizeofPattern2 = seqs [re_sizeof, spaces0, chr CHR ''*'', spaces0, Grp 1 digits1]"

definition re_sizeof_type :: regex where \<comment> \<open>\<open>/sizeof\s*\(([^)]+)\)/\<close>\<close>
  "re_sizeof_type =
     seqs [Str ''sizeof'', spaces0, chr CHR ''('', Grp 1 (Plus (Atom (NotCh CHR '')''))),
           chr CHR '')'']"

text \<open>
  The checks on the text between the parentheses of \<open>sizeof\<close>; \<open>None\<close> when none of them
  returns, and \<open>getTypeSize\<close> goes on to the checks on the whole argument text.
\<close>

definition sizeof_type_size :: "string \<Rightarrow> int option" where
  "sizeof_type_size type =
     (if includes_str type ''char'' then Some TYPE_SIZES_CHAR
      else if includes_str type ''int'' \<or> includes_str type ''float'' then Some TYPE_SIZES_INT
      else if includes_str type ''double'' \<or> includes_str type ''long long''
      then Some TYPE_SIZES_DOUBLE
      else None)"

definition args_type_size :: "string \<Rightarrow> int" where
  "args_type_size args =
     (if includes_str args ''char'' then TYPE_SIZES_CHAR
      else if includes_str args ''int'' \<or> includes_str args ''float'' then TYPE_SIZES_INT
      else if includes_str args ''double'' then TYPE_SIZES_DOUBLE
      else TYPE_SIZES_DEFAULT)"

definition getTypeSize :: "string \<Rightarrow> int" where
  "getTypeSize args =
     (case js_match re_sizeof_type args of
        Some sizeofMatch \<Rightarrow>
          (case sizeof_type_size (trim (to_str (group 1 sizeofMatch))) of
             Some n \<Rightarrow> n
           | None \<Rightarrow> args_type_size args)
      | None \<Rightarrow> args_type_size args)"

text \<open>Truthiness, \<open>typeof x === 'number'\<close> and string conversion of a value.\<close>

fun truthy :: "jsval \<Rightarrow> bool" where
  "truthy JUndefined = False"
| "truthy JNull = False"
| "truthy (JBool b) = b"
| "truthy (JNum n) = (n \<noteq> 0)"
| "truthy (JStr s) = (s \<noteq> [])"
| "truthy JObject = True"

fun js_to_string :: "jsval \<Rightarrow> string" where
  "js_to_string JUndefined = ''undefined''"
| "js_to_string JNull = ''null''"
| "js_to_string (JBool b) = (if b then ''true'' else ''false'')"
| "js_to_string (JNum n) = show_int n"
| "js_to_string (JStr s) = s"
| "js_to_string JObject = ''[object Object]''"

text \<open>\<open>xs[0]\<close> on an array: \<open>undefined\<close> when the array is empty.\<close>

definition first_elem :: "jsval list \<Rightarrow> jsval" where
  "first_elem vs = (case vs of [] \<Rightarrow> JUndefined | v # _ \<Rightarrow> v)"

text \<open>\<open>typeof x === 'number' ? x : parseInt(x) || 1\<close>\<close>

definition number_or_parsed :: "jsval \<Rightarrow> int" where
  "number_or_parsed sizeArg =
     (case sizeArg of JNum n \<Rightarrow> n | _ \<Rightarrow> or_one (parseInt (js_to_string sizeArg)))"

text \<open>\<open>Array.isArray(astNode.args) ? astNode.args[0] : (astNode.args || '1')\<close>\<close>

definition size_arg :: "ast_node \<Rightarrow> jsval" where
  "size_arg astNode =
     (case n_args astNode of
        Some (ArgsArr vs) \<Rightarrow> first_elem vs
      | Some (ArgsStr s) \<Rightarrow> JStr (if s = [] then ''1'' else s)
      | None \<Rightarrow> JStr ''1'')"

text \<open>
  The part of \<open>calculateSizeFromAST\<close> for the languages \<open>c\<close> and \<open>cpp\<close> after the \<open>calloc\<close>
  case, which returns only when its expression matches.
\<close>

definition c_size_after_calloc :: "string \<Rightarrow> ast_node \<Rightarrow> string \<Rightarrow> int" where
  "c_size_after_calloc language astNode args =
     (case js_match sizeofPattern1 args of
        Some m1 \<Rightarrow> or_one (parseInt (to_str (group 1 m1))) * getTypeSize args
      | None \<Rightarrow>
         (case js_match sizeofPattern2 args of
            Some m2 \<Rightarrow> or_one (parseInt (to_str (group 1 m2))) * getTypeSize args
          | None \<Rightarrow>
             (case js_match re_number args of
                Some numMatch \<Rightarrow> or_one (parseInt (to_str (group 1 numMatch)))
              | None \<Rightarrow>
                 (if language = ''cpp'' then
                    (if n_function astNode = Some ''new[]'' then
                       (case js_match re_number args of
                          Some arrayMatch \<Rightarrow>
                            or_one (parseInt (to_str (group 1 arrayMatch))) * TYPE_SIZES_DEFAULT
                        | None \<Rightarrow> 1)
                     else if n_function astNode = Some ''new'' then TYPE_SIZES_DEFAULT
                     else 1)
                  else 1))))"

definition calculateSizeFromAST :: "string \<Rightarrow> ast_node \<Rightarrow> string \<Rightarrow> int" where
  "calculateSizeFromAST language astNode args =
     (if language = ''c'' \<or> language = ''cpp'' then
        (case (if n_function astNode = Some ''calloc'' then js_match re_calloc args else None) of
           Some callocMatch \<Rightarrow>
             or_one (parseInt (to_str (group 1 callocMatch))) *
             or_one (parseInt (to_str (group 2 callocMatch)))
         | None \<Rightarrow> c_size_after_calloc language astNode args)
      else
        (let langSize = (case map_of LANGUAGE_SIZES language of
                           Some n \<Rightarrow> n | None \<Rightarrow> TYPE_SIZES_DEFAULT)
         in if language = ''javascript'' then
              (case n_args astNode of
                 Some (ArgsArr vs) \<Rightarrow>
                   (let size = (if truthy (first_elem vs) then first_elem vs else JNum 1)
                    in (case size of JNum n \<Rightarrow> n | _ \<Rightarrow> 1) * langSize)
               | _ \<Rightarrow> langSize)
            else if language = ''python'' \<or> language = ''rust'' \<or> language = ''go'' then
              number_or_parsed (size_arg astNode) * langSize
            else if language = ''java'' then
              number_or_parsed (size_arg astNode) * langSize
            else 1))"

definition getLineFromCode :: "string \<Rightarrow> nat \<Rightarrow> string" where
  "getLineFromCode code lineNum =
     (let lines = split_lines code
      in if 1 \<le> lineNum \<and> lineNum \<le> length lines then lines ! (lineNum - 1) else [])"

text \<open>\<open>astNode.originalLine || this.getLineFromCode(originalCode, astNode.line)\<close>\<close>

definition line_text :: "ast_node \<Rightarrow> string \<Rightarrow> string" where
  "line_text astNode originalCode =
     (case n_originalLine astNode of
        Some l \<Rightarrow> if l \<noteq> [] then l else getLineFromCode originalCode (n_line astNode)
      | None \<Rightarrow> getLineFromCode originalCode (n_line astNode))"

text \<open>\<open>Array.prototype.join(', ')\<close>: \<open>null\<close> and \<open>undefined\<close> give the empty string.\<close>

definition join_elem :: "jsval \<Rightarrow> string" where
  "join_elem v = (if v = JNull \<or> v = JUndefined then [] else js_to_string v)"

fun join_args :: "jsval list \<Rightarrow> string" where
  "join_args [] = []"
| "join_args [v] = join_elem v"
| "join_args (v # vs) = join_elem v @ '', '' @ join_args vs"

text \<open>
  \<open>processASTAllocation\<close>; \<open>now\<close> is what \<open>Date.now()\<close> returns in this call.  No node has
  a field \<open>inFunction\<close>, so \<open>astNode.inFunction || false\<close> is \<open>False\<close>.
\<close>

definition processASTAllocation :: "string \<Rightarrow> nat \<Rightarrow> ast_node \<Rightarrow> string \<Rightarrow> allocation" where
  "processASTAllocation language now astNode originalCode =
     (let args = (case n_args astNode of
                    Some (ArgsArr vs) \<Rightarrow> join_args vs
                  | Some (ArgsStr s) \<Rightarrow> s
                  | None \<Rightarrow> []);
          size = calculateSizeFromAST language astNode args
      in \<lparr>a_var = n_var astNode, a_line = n_line astNode, a_function = n_function astNode,
          a_size = size, a_lineText = line_text astNode originalCode,
          a_inLoop = n_inLoop astNode, a_inFunction = False,
          a_functionName = n_functionName astNode,
          allocId = to_str (n_var astNode) @ ''_line'' @ show_nat (n_line astNode) @ ''_'' @
                    show_nat now,
          a_language = language\<rparr>)"

definition processASTDeallocation :: "string \<Rightarrow> ast_node \<Rightarrow> string \<Rightarrow> free_event" where
  "processASTDeallocation language astNode originalCode =
     \<lparr>fe_var = n_var astNode, fe_line = n_line astNode,
      fe_lineText = line_text astNode originalCode, fe_language = language,
      fe_isArray = (n_function astNode = Some ''delete[]'')\<rparr>"


subsection \<open>The tracker: handleAllocation, handleFree, findLeaks, updateTimeline\<close>

text \<open>\<open>x || 'unknown'\<close> on a string that may be \<open>undefined\<close>.\<close>

definition or_unknown :: "string option \<Rightarrow> string" where
  "or_unknown x = (case x of None \<Rightarrow> ''unknown'' | Some s \<Rightarrow> if s = [] then ''unknown'' else s)"

definition reassign_leak :: "string \<Rightarrow> allocation \<Rightarrow> allocation \<Rightarrow> leak" where
  "reassign_leak v alloc lastAlloc =
     \<lparr>l_var = v, l_line = a_line lastAlloc, l_function = or_unknown (a_function lastAlloc),
      l_size = a_size lastAlloc, l_inLoop = a_inLoop lastAlloc,
      l_fix = ''Memory leak: '' @ v @ '' was reassigned on line '' @ show_nat (a_line alloc) @
              '' without freeing the previous allocation on line '' @
              show_nat (a_line lastAlloc) @ ''. Add free('' @ v @
              ''); before the reassignment.''\<rparr>"

text \<open>
  \<open>handleAllocation\<close>.  The first block pops the live allocation of the variable, if
  there is one, and reports it as a leak; then the new allocation is pushed.  In the
  second block \<open>this.allocations.get(alloc.var)\<close> is read right after the key has been
  set, so the branch for a missing key is never taken; it leaves everything as the
  handler of the method would.
\<close>

definition evict_previous :: "tracker \<Rightarrow> analysis \<Rightarrow> string \<Rightarrow> allocation \<Rightarrow> tracker \<times> analysis" where
  "evict_previous tr an v alloc =
     (case map_of (this_allocations tr) v of
        Some existingAllocs \<Rightarrow>
          if existingAllocs \<noteq> [] then
            (let lastAlloc = last existingAllocs
             in (tr\<lparr>currentMemory := currentMemory tr - a_size lastAlloc,
                    this_allocations :=
                      map_set (this_allocations tr) v (butlast existingAllocs)\<rparr>,
                 an\<lparr>leaks := leaks an @ [reassign_leak v alloc lastAlloc]\<rparr>))
          else (tr, an)
      | None \<Rightarrow> (tr, an))"

definition push_allocation :: "tracker \<Rightarrow> analysis \<Rightarrow> string \<Rightarrow> allocation \<Rightarrow> tracker \<times> analysis" where
  "push_allocation tr an v alloc =
     (let tr = (if \<not> map_has (this_allocations tr) v
                then tr\<lparr>this_allocations := map_set (this_allocations tr) v []\<rparr> else tr)
      in case map_of (this_allocations tr) v of
           Some allocs \<Rightarrow>
             (tr\<lparr>this_allocations := map_set (this_allocations tr) v (allocs @ [alloc]),
                 currentMemory := currentMemory tr + a_size alloc\<rparr>,
              an\<lparr>allocations := allocations an @ [alloc]\<rparr>)
         | None \<Rightarrow> (tr, an))"

definition handleAllocation :: "tracker \<Rightarrow> analysis \<Rightarrow> allocation \<Rightarrow> tracker \<times> analysis" where
  "handleAllocation tr an alloc =
     (case a_var alloc of
        None \<Rightarrow> (tr, an)
      | Some v \<Rightarrow>
          if v = [] then (tr, an)
          else (case evict_previous tr an v alloc of
                  (tr', an') \<Rightarrow> push_allocation tr' an' v alloc))"

definition handleFree :: "tracker \<Rightarrow> analysis \<Rightarrow> free_event \<Rightarrow> tracker \<times> analysis" where
  "handleFree tr an free =
     (case fe_var free of
        None \<Rightarrow> (tr, an)
      | Some v \<Rightarrow>
          if v = [] then (tr, an)
          else
            (case map_of (this_allocations tr) v of
               None \<Rightarrow>
                 (tr, an\<lparr>warnings := warnings an @
                    [\<lparr>w_type = ''Potential Double Free'', w_line = fe_line free,
                      w_message = ''free() called on '' @ v @
                                  '' which may not be allocated or already freed.'',
                      w_lineText = fe_lineText free\<rparr>]\<rparr>)
             | Some allocs \<Rightarrow>
                 if allocs = [] then
                   (tr, an\<lparr>warnings := warnings an @
                      [\<lparr>w_type = ''Double Free'', w_line = fe_line free,
                        w_message = ''free() called on '' @ v @
                                    '' which has already been freed.'',
                        w_lineText = fe_lineText free\<rparr>]\<rparr>)
                 else
                   (let freedAlloc = last allocs;
                        allocs = butlast allocs
                    in (tr\<lparr>currentMemory := currentMemory tr - a_size freedAlloc,
                           this_allocations :=
                             (if allocs = [] then map_delete (this_allocations tr) v
                              else map_set (this_allocations tr) v allocs)\<rparr>,
                        an\<lparr>frees := frees an @
                           [\<lparr>f_var = v, f_line = fe_line free, f_lineText = fe_lineText free,
                             freedAllocId = allocId freedAlloc\<rparr>]\<rparr>))))"

definition detectCodeQualityIssues :: "string \<Rightarrow> nat \<Rightarrow> string \<Rightarrow> analysis \<Rightarrow> analysis" where
  "detectCodeQualityIssues line lineNum originalLine an =
     (if line = [] then an
      else if includes_str line ''strcpy('' \<and> \<not> includes_str line ''strncpy'' then
        an\<lparr>warnings := warnings an @
           [\<lparr>w_type = ''Unsafe Function'', w_line = lineNum,
             w_message = ''strcpy() used without bounds checking. Consider using strncpy() or strcpy_s().'',
             w_lineText = trim originalLine\<rparr>]\<rparr>
      else an)"

definition end_leak :: "string \<Rightarrow> allocation \<Rightarrow> leak" where
  "end_leak varName alloc =
     (let fixMessage =
            (if a_inLoop alloc then
               ''Add free('' @ varName @
               ''); inside the loop after use, or collect pointers and free them after the loop.''
             else if a_inFunction alloc \<and> a_functionName alloc \<noteq> None \<and>
                     a_functionName alloc \<noteq> Some [] \<and> a_functionName alloc \<noteq> Some ''main''
             then
               ''Memory allocated in '' @ to_str (a_functionName alloc) @ ''() on line '' @
               show_nat (a_line alloc) @
               ''. Ensure caller frees this memory, or free it before function return.''
             else
               ''Add free('' @ varName @
               ''); before function return or at appropriate cleanup point.'')
      in \<lparr>l_var = (if varName = [] then ''unknown'' else varName), l_line = a_line alloc,
          l_function = or_unknown (a_function alloc), l_size = a_size alloc,
          l_inLoop = a_inLoop alloc, l_fix = fixMessage\<rparr>)"

definition findLeaks :: "tracker \<Rightarrow> analysis \<Rightarrow> analysis" where
  "findLeaks tr an =
     an\<lparr>leaks := leaks an @
        concat (map (\<lambda>(varName, allocs). map (end_leak varName) allocs) (this_allocations tr))\<rparr>"

definition updateTimeline :: "tracker \<Rightarrow> nat \<Rightarrow> tracker" where
  "updateTimeline tr lineNum =
     tr\<lparr>this_timeline := this_timeline tr @ [\<lparr>s_line = lineNum, s_memory = currentMemory tr\<rparr>]\<rparr>"

subsection \<open>analyze\<close>

datatype error = Error string

text \<open>
  The callback of \<open>astBody.forEach\<close>.  \<open>now\<close> gives what \<open>Date.now()\<close> returns while the node
  at a position of the body is processed.  None of the calls of the callback raises in
  the model, so its handler has no branch.
\<close>

definition process_node ::
  "string \<Rightarrow> (nat \<Rightarrow> nat) \<Rightarrow> string \<Rightarrow> tracker \<times> analysis \<Rightarrow> nat \<Rightarrow> ast_node \<Rightarrow> tracker \<times> analysis" where
  "process_node language now code st i node =
     (case (if n_type node = Allocation then
              handleAllocation (fst st) (snd st) (processASTAllocation language (now i) node code)
            else if n_type node = Deallocation then
              handleFree (fst st) (snd st) (processASTDeallocation language node code)
            else st) of
        (tr, an) \<Rightarrow> (updateTimeline tr (if n_line node \<noteq> 0 then n_line node else 1), an))"

fun process_nodes ::
  "string \<Rightarrow> (nat \<Rightarrow> nat) \<Rightarrow> string \<Rightarrow> tracker \<times> analysis \<Rightarrow> nat \<Rightarrow> ast_node list \<Rightarrow> tracker \<times> analysis" where
  "process_nodes language now code st i [] = st"
| "process_nodes language now code st i (node # ns) =
     process_nodes language now code (process_node language now code st i node) (i + 1) ns"

fun scan_lines :: "analysis \<Rightarrow> nat \<Rightarrow> string list \<Rightarrow> analysis" where
  "scan_lines an index [] = an"
| "scan_lines an index (line # ls) =
     scan_lines (detectCodeQualityIssues line (index + 1) line an) (index + 1) ls"

text \<open>The fields the constructor sets, and the object \<open>analyze\<close> starts from.\<close>

definition new_tracker :: tracker where
  "new_tracker = \<lparr>this_allocations = [], this_timeline = [], currentMemory = 0\<rparr>"

definition new_analysis :: analysis where
  "new_analysis = \<lparr>allocations = [], frees = [], leaks = [], warnings = [], timeline = []\<rparr>"

text \<open>
  The body of the \<open>try\<close> block of \<open>analyze\<close>, on a fresh analyzer; it returns the analyzer's
  fields at the end together with the result.  The parser is the object in
  \<open>this.astParser\<close>; a parser that raises is \<open>Inl\<close>.
\<close>

definition analyze_body ::
  "(string \<Rightarrow> error + ast) \<Rightarrow> string \<Rightarrow> (nat \<Rightarrow> nat) \<Rightarrow> string \<Rightarrow> error + tracker \<times> analysis" where
  "analyze_body parser language now code =
     (case parser code of
        Inl e \<Rightarrow> Inl e
      | Inr ast \<Rightarrow>
          (let astBody = body ast;
               st = process_nodes language now code (new_tracker, new_analysis) 0 astBody;
               lines = split_lines code;
               an = scan_lines (snd st) 0 lines;
               an = findLeaks (fst st) an
           in Inr (fst st, an)))"

definition emptyAnalysis :: "error \<Rightarrow> analysis" where
  "emptyAnalysis e =
     (case e of Error message \<Rightarrow>
        \<lparr>allocations = [], frees = [], leaks = [],
         warnings = [\<lparr>w_type = ''Analysis Error'', w_line = 0,
                      w_message = ''Analysis encountered an error: '' @ message @
                                  ''. Some results may be incomplete.'',
                      w_lineText = []\<rparr>],
         timeline = []\<rparr>)"

definition invalid_input :: error where
  "invalid_input = Error ''Invalid code input: code must be a non-empty string''"

definition analyze_with ::
  "(string \<Rightarrow> error + ast) \<Rightarrow> string \<Rightarrow> (nat \<Rightarrow> nat) \<Rightarrow> jsval \<Rightarrow> error + analysis" where
  "analyze_with parser language now code =
     (case code of
        JStr s \<Rightarrow>
          if s = [] then Inl invalid_input
          else (case analyze_body parser language now s of
                  Inr (tr, an) \<Rightarrow> Inr an
                | Inl e \<Rightarrow> Inr (emptyAnalysis e))
      | _ \<Rightarrow> Inl invalid_input)"

text \<open>\<open>new MemoryAnalyzer(language).analyze(code)\<close> with the parser of the repository.\<close>

definition analyze :: "acorn \<Rightarrow> string \<Rightarrow> (nat \<Rightarrow> nat) \<Rightarrow> jsval \<Rightarrow> error + analysis" where
  "analyze acorn language now code =
     analyze_with (\<lambda>s. Inr (parse acorn language s)) language now code"

text \<open>
  The analyzer's own fields after \<open>analyze\<close> has run on a non-empty text: the first
  component of what \<open>analyze_body\<close> returns with the parser of the repository.
\<close>

definition tracker_after :: "acorn \<Rightarrow> string \<Rightarrow> (nat \<Rightarrow> nat) \<Rightarrow> string \<Rightarrow> tracker" where
  "tracker_after acorn language now s =
     fst (process_nodes language now s (new_tracker, new_analysis) 0
            (body (parse acorn language s)))"

text \<open>A clock for the examples: \<open>Date.now()\<close> advances by one between two nodes.\<close>

definition clock :: "nat \<Rightarrow> nat" where
  "clock i = 1000 + i"


section \<open>Notions used in the properties\<close>

subsection \<open>Inputs of the examples\<close>

definition clean_pair :: string where
  "clean_pair = ''int *p = malloc(4); free(p);''"

definition one_malloc :: string where
  "one_malloc = ''int *p = malloc(4);''"

definition reassign_one_line :: string where
  "reassign_one_line = ''int *p = malloc(10); p = malloc(20);''"

definition reassign_two_lines :: string where
  "reassign_two_lines = ''int *p = malloc(10);'' @ [CHR 0x0A] @ ''p = malloc(20);''"

definition double_free_one_line :: string where
  "double_free_one_line = ''int *p = malloc(4); free(p); free(p);''"

definition double_free_three_lines :: string where
  "double_free_three_lines =
     ''int *p = malloc(4);'' @ [CHR 0x0A] @ ''free(p);'' @ [CHR 0x0A] @ ''free(p);''"

definition malloc_sizeof :: string where
  "malloc_sizeof = ''int *a = malloc(10 * sizeof(int));''"

definition malloc_10 :: string where
  "malloc_10 = ''char *b = malloc(10);''"

definition new_array_10 :: string where
  "new_array_10 = ''int *a = new int[10];''"

definition new_with_index :: string where
  "new_with_index = ''int *q = new Foo(arr[3]);''"

definition new_scalar_5 :: string where
  "new_scalar_5 = ''int *p = new int(5);''"

definition two_copies :: string where
  "two_copies = ''strcpy(a, b); strcpy(c, d);''"

definition mixed_copies :: string where
  "mixed_copies = ''strcpy(a, b); strncpy(c, d, 4);''"

text \<open>
  The record \<open>processASTAllocation\<close> builds for a \<open>malloc\<close> into the variable \<open>p\<close> under the
  language \<open>c\<close>, and the event \<open>processASTDeallocation\<close> builds for \<open>free(p);\<close> on a line
  of its own.
\<close>

definition malloc_p :: "nat \<Rightarrow> int \<Rightarrow> string \<Rightarrow> nat \<Rightarrow> allocation" where
  "malloc_p line sz lineText now =
     \<lparr>a_var = Some ''p'', a_line = line, a_function = Some ''malloc'', a_size = sz,
      a_lineText = lineText, a_inLoop = False, a_inFunction = False,
      a_functionName = Some ''malloc'',
      allocId = ''p_line'' @ show_nat line @ ''_'' @ show_nat now, a_language = ''c''\<rparr>"

definition free_p :: "nat \<Rightarrow> free_event" where
  "free_p line =
     \<lparr>fe_var = Some ''p'', fe_line = line, fe_lineText = ''free(p);'', fe_language = ''c'',
      fe_isArray = False\<rparr>"

text \<open>An analyzer in which \<open>p\<close> holds one live allocation, of 10 bytes made on line 1.\<close>

definition tracker_with_p :: tracker where
  "tracker_with_p =
     \<lparr>this_allocations = [(''p'', [malloc_p 1 10 ''int *p = malloc(10);'' 1000])],
      this_timeline = [\<lparr>s_line = 1, s_memory = 10\<rparr>], currentMemory = 10\<rparr>"

subsection \<open>Input validation and the recovered failure\<close>

text \<open>
  The result that stands for a failure inside \<open>analyze\<close>: one warning, of type
  \<open>Analysis Error\<close>, and nothing else.
\<close>

definition analysis_error_only :: "analysis \<Rightarrow> bool" where
  "analysis_error_only r =
     (allocations r = [] \<and> frees r = [] \<and> leaks r = [] \<and> timeline r = [] \<and>
      map w_type (warnings r) = [''Analysis Error''])"

text \<open>A parser object whose \<open>parse\<close> raises.\<close>

definition failing_parser :: "string \<Rightarrow> error + ast" where
  "failing_parser s = Inl (Error ''out of memory'')"

subsection \<open>Warnings\<close>

definition double_free_warnings :: "analysis \<Rightarrow> warning list" where
  "double_free_warnings r =
     filter (\<lambda>w. w_type w = ''Double Free'' \<or> w_type w = ''Potential Double Free'')
       (warnings r)"

text \<open>The warning \<open>handleFree\<close> pushes for a variable with no entry in \<open>this.allocations\<close>.\<close>

definition potential_double_free :: "string \<Rightarrow> free_event \<Rightarrow> warning" where
  "potential_double_free v free =
     \<lparr>w_type = ''Potential Double Free'', w_line = fe_line free,
      w_message = ''free() called on '' @ v @ '' which may not be allocated or already freed.'',
      w_lineText = fe_lineText free\<rparr>"

definition free_warning :: "warning \<Rightarrow> bool" where
  "free_warning w = (w_type w = ''Potential Double Free'' \<or> w_type w = ''Double Free'')"

definition unsafe_function_warnings :: "analysis \<Rightarrow> warning list" where
  "unsafe_function_warnings r = filter (\<lambda>w. w_type w = ''Unsafe Function'') (warnings r)"

text \<open>The test of \<open>detectCodeQualityIssues\<close> on a line, and the warning it pushes.\<close>

definition unsafe_line :: "string \<Rightarrow> bool" where
  "unsafe_line line = (includes_str line ''strcpy('' \<and> \<not> includes_str line ''strncpy'')"

definition unsafe_function_warning :: "nat \<Rightarrow> string \<Rightarrow> warning" where
  "unsafe_function_warning lineNum originalLine =
     \<lparr>w_type = ''Unsafe Function'', w_line = lineNum,
      w_message = ''strcpy() used without bounds checking. Consider using strncpy() or strcpy_s().'',
      w_lineText = trim originalLine\<rparr>"

text \<open>
  The specification counts the occurrences of the unbounded copy call on a line: the
  positions of the line at which the text of the call starts.  No occurrence of
  \<open>strcpy(\<close> is part of a call of \<open>strncpy\<close>, whose name has an \<open>n\<close> before the \<open>c\<close>.
\<close>

fun spec_occurrences :: "string \<Rightarrow> string \<Rightarrow> nat" where
  "spec_occurrences w [] = (if w = [] then 1 else 0)"
| "spec_occurrences w (c # s) =
     (if strip_prefix w (c # s) \<noteq> None then 1 else 0) + spec_occurrences w s"

subsection \<open>The stacks of live allocations\<close>

definition stacks_ok :: "tracker \<Rightarrow> bool" where
  "stacks_ok tr = list_all (\<lambda>(v, allocs). length allocs \<le> 1) (this_allocations tr)"

subsection \<open>Languages\<close>

definition recognized_languages :: "string list" where
  "recognized_languages = [''c'', ''cpp'', ''javascript'', ''python'', ''java'', ''rust'', ''go'']"

text \<open>
  What separates the result under a language that is not recognized from the result
  under \<open>c\<close>: every allocation is estimated at one byte and carries the name of the
  language, and a leak has the size of its allocation.
\<close>

definition retag_alloc :: "string \<Rightarrow> allocation \<Rightarrow> allocation" where
  "retag_alloc language a = a\<lparr>a_size := 1, a_language := language\<rparr>"

definition retag_leak :: "leak \<Rightarrow> leak" where
  "retag_leak l = l\<lparr>l_size := 1\<rparr>"

definition retag_analysis :: "string \<Rightarrow> analysis \<Rightarrow> analysis" where
  "retag_analysis language an =
     an\<lparr>allocations := map (retag_alloc language) (allocations an),
        leaks := map retag_leak (leaks an)\<rparr>"

definition retag_map ::
  "string \<Rightarrow> (string \<times> allocation list) list \<Rightarrow> (string \<times> allocation list) list" where
  "retag_map language m = map (\<lambda>(k, xs). (k, map (retag_alloc language) xs)) m"

section \<open>Properties\<close>

subsection \<open>The map of live allocations\<close>

lemma map_of_map_set:
  "map_of (map_set m k v) k' = (if k' = k then Some v else map_of m k')"
  by (induction m) auto

lemma list_all_map_set:
  "list_all P m \<Longrightarrow> P (k, v) \<Longrightarrow> list_all P (map_set m k v)"
  by (induction m) auto

lemma list_all_map_delete:
  "list_all P m \<Longrightarrow> list_all P (map_delete m k)"
  by (simp add: map_delete_def list_all_iff)

lemma list_all_map_of:
  "list_all P m \<Longrightarrow> map_of m k = Some v \<Longrightarrow> P (k, v)"
  by (auto simp: list_all_iff dest: map_of_SomeD)

subsection \<open>Input validation and the recovered failure\<close>

text \<open>
  Claim C1.  \<open>analyze\<close> raises only the input-validation error, and raises it exactly when
  the input is the empty string or not a string; on every other input it returns a
  result, a record in which each of the five sequences is present.  A failure inside the
  \<open>try\<close> block, here a parser object that raises, is returned as the result with the single
  warning \<open>Analysis Error\<close> and no other entry.  The first three parts hold for any parser
  object, the last two for the analyzer with the parser of the repository, which never
  raises.
\<close>

theorem analyze_raises_only_invalid_input:
  "(analyze_with parser language now code = Inl invalid_input \<longleftrightarrow>
      code = JStr [] \<or> (\<forall>s. code \<noteq> JStr s)) \<and>
   (\<forall>e. analyze_with parser language now code = Inl e \<longrightarrow> e = invalid_input) \<and>
   (\<forall>s. code = JStr s \<and> s \<noteq> [] \<longrightarrow>
      (\<exists>r. analyze_with parser language now code = Inr r) \<and>
      (\<forall>e. parser s = Inl e \<longrightarrow>
         analyze_with parser language now code = Inr (emptyAnalysis e) \<and>
         analysis_error_only (emptyAnalysis e))) \<and>
   (analyze acorn language now code = Inl invalid_input \<longleftrightarrow>
      code = JStr [] \<or> (\<forall>s. code \<noteq> JStr s)) \<and>
   (\<forall>s. code = JStr s \<and> s \<noteq> [] \<longrightarrow> (\<exists>r. analyze acorn language now code = Inr r))"
proof -
  have shape: "analysis_error_only (emptyAnalysis e)" for e
    by (cases e) (simp add: emptyAnalysis_def analysis_error_only_def)
  have w: "(analyze_with p language now code = Inl invalid_input \<longleftrightarrow>
              code = JStr [] \<or> (\<forall>s. code \<noteq> JStr s)) \<and>
           (\<forall>e. analyze_with p language now code = Inl e \<longrightarrow> e = invalid_input) \<and>
           (\<forall>s. code = JStr s \<and> s \<noteq> [] \<longrightarrow>
              (\<exists>r. analyze_with p language now code = Inr r) \<and>
              (\<forall>e. p s = Inl e \<longrightarrow>
                 analyze_with p language now code = Inr (emptyAnalysis e)))" for p
    by (cases code)
       (auto simp: analyze_with_def analyze_body_def Let_def split: sum.splits prod.splits)
  show ?thesis
    using w [of parser] w [of "\<lambda>s. Inr (parse acorn language s)"] shape
    by (simp add: analyze_def)
qed

theorem analyze_raises_only_invalid_input_witness:
  "analyze_with failing_parser ''c'' clock (JStr ''int x;'') =
     Inr (emptyAnalysis (Error ''out of memory'')) \<and>
   analysis_error_only (emptyAnalysis (Error ''out of memory'')) \<and>
   (\<exists>r. analyze None ''c'' clock (JStr ''int x;'') = Inr r) \<and>
   analyze None ''c'' clock (JStr []) = Inl invalid_input \<and>
   analyze None ''c'' clock JNull = Inl invalid_input"
  using analyze_raises_only_invalid_input [of failing_parser "''c''" clock "JStr ''int x;''" None]
    analyze_raises_only_invalid_input [of failing_parser "''c''" clock "JStr []" None]
    analyze_raises_only_invalid_input [of failing_parser "''c''" clock JNull None]
  by (simp add: failing_parser_def)

subsection \<open>The timeline\<close>

lemma evict_previous_timeline:
  "this_timeline (fst (evict_previous tr an v a)) = this_timeline tr"
  by (simp add: evict_previous_def Let_def split: option.splits)

lemma push_allocation_timeline:
  "this_timeline (fst (push_allocation tr an v a)) = this_timeline tr"
  by (simp add: push_allocation_def Let_def split: option.splits)

lemma handleAllocation_timeline:
  "this_timeline (fst (handleAllocation tr an a)) = this_timeline tr"
  by (simp add: handleAllocation_def case_prod_beta evict_previous_timeline
      push_allocation_timeline split: option.splits)

lemma handleFree_timeline:
  "this_timeline (fst (handleFree tr an f)) = this_timeline tr"
  by (simp add: handleFree_def Let_def split: option.splits)

lemma process_node_timeline:
  "this_timeline (fst (process_node language now code st i node)) =
   this_timeline (fst st) @
     [\<lparr>s_line = (if n_line node \<noteq> 0 then n_line node else 1),
       s_memory = currentMemory (fst (process_node language now code st i node))\<rparr>]"
  by (cases "n_type node")
     (simp_all add: process_node_def case_prod_beta updateTimeline_def
        handleAllocation_timeline handleFree_timeline)

text \<open>The analyzer's own timeline gets one sample for each node of the body.\<close>

lemma process_nodes_timeline:
  "length (this_timeline (fst (process_nodes language now code st i ns))) =
   length (this_timeline (fst st)) + length ns"
proof (induction ns arbitrary: st i)
  case Nil
  then show ?case by simp
next
  case (Cons node ns)
  have "length (this_timeline (fst (process_node language now code st i node))) =
        Suc (length (this_timeline (fst st)))"
    by (subst process_node_timeline) simp
  then show ?case using Cons.IH by simp
qed

text \<open>
  No step of \<open>analyze\<close> writes the field \<open>timeline\<close> of the result: \<open>updateTimeline\<close>
  pushes onto the analyzer's own \<open>this.timeline\<close>.
\<close>

lemma evict_previous_result_timeline:
  "timeline (snd (evict_previous tr an v a)) = timeline an"
  by (simp add: evict_previous_def Let_def split: option.splits)

lemma push_allocation_result_timeline:
  "timeline (snd (push_allocation tr an v a)) = timeline an"
  by (simp add: push_allocation_def Let_def split: option.splits)

lemma handleAllocation_result_timeline:
  "timeline (snd (handleAllocation tr an a)) = timeline an"
  by (simp add: handleAllocation_def case_prod_beta evict_previous_result_timeline
      push_allocation_result_timeline split: option.splits)

lemma handleFree_result_timeline:
  "timeline (snd (handleFree tr an f)) = timeline an"
  by (simp add: handleFree_def Let_def split: option.splits)

lemma process_node_result_timeline:
  "timeline (snd (process_node language now code st i node)) = timeline (snd st)"
  by (cases "n_type node")
     (simp_all add: process_node_def case_prod_beta handleAllocation_result_timeline
        handleFree_result_timeline)

lemma process_nodes_result_timeline:
  "timeline (snd (process_nodes language now code st i ns)) = timeline (snd st)"
  by (induction ns arbitrary: st i) (simp_all add: process_node_result_timeline)

lemma scan_lines_timeline:
  "timeline (scan_lines an i ls) = timeline an"
  by (induction ls arbitrary: an i) (simp_all add: detectCodeQualityIssues_def)

lemma analyze_timeline_empty:
  "analyze acorn language now code = Inr r \<Longrightarrow> timeline r = []"
  by (auto simp: analyze_def analyze_with_def analyze_body_def Let_def findLeaks_def
      scan_lines_timeline process_nodes_result_timeline new_analysis_def emptyAnalysis_def
      split: jsval.splits if_splits sum.splits error.splits)

lemma tracker_after_analyze_body:
  "analyze_body (\<lambda>s. Inr (parse acorn language s)) language now s = Inr (tr, an) \<Longrightarrow>
   tr = tracker_after acorn language now s"
  by (auto simp: analyze_body_def tracker_after_def Let_def)

lemma one_malloc_result:
  "analyze acorn ''c'' now (JStr one_malloc) =
    Inr \<lparr>allocations = [malloc_p 1 4 one_malloc (now 0)], frees = [],
      leaks = [end_leak ''p'' (malloc_p 1 4 one_malloc (now 0))],
      warnings = [], timeline = []\<rparr>"
  by code_simp

lemma one_malloc_body:
  "length (body (parse acorn ''c'' one_malloc)) = 1"
  by code_simp

lemma one_malloc_tracker:
  "this_timeline (tracker_after acorn ''c'' now one_malloc) = [\<lparr>s_line = 1, s_memory = 4\<rparr>]"
  by code_simp

text \<open>
  Claim C2.  The claim says that the \<open>timeline\<close> of the result is a copy of the analyzer's
  timeline and has one sample for each event.  The analyzer's own timeline does hold one
  sample for each node of the body, for every source text.  But \<open>analyze\<close> never copies
  \<open>this.timeline\<close> into the object it returns, whose \<open>timeline\<close> is empty on every input:
  on the C input \<open>int *p = malloc(4);\<close> the parser extracts one event, the analyzer's own
  timeline holds the sample of line 1 and 4 bytes, and the \<open>timeline\<close> of the result is
  empty.
\<close>

theorem timeline_not_copied:
  "(\<exists>r. analyze acorn ''c'' now (JStr one_malloc) = Inr r \<and> timeline r = []) \<and>
   length (body (parse acorn ''c'' one_malloc)) = 1 \<and>
   this_timeline (tracker_after acorn ''c'' now one_malloc) = [\<lparr>s_line = 1, s_memory = 4\<rparr>] \<and>
   length (this_timeline (tracker_after acorn' language now' s)) =
     length (body (parse acorn' language s)) \<and>
   (case analyze acorn' language now' code of Inl e \<Rightarrow> True | Inr r \<Rightarrow> timeline r = [])"
proof -
  have "length (this_timeline (tracker_after acorn' language now' s)) =
        length (body (parse acorn' language s))"
    by (simp add: tracker_after_def process_nodes_timeline new_tracker_def)
  moreover have "case analyze acorn' language now' code of
                   Inl e \<Rightarrow> True | Inr r \<Rightarrow> timeline r = []"
    using analyze_timeline_empty [of acorn' language now' code] by (simp split: sum.splits)
  ultimately show ?thesis
    by (simp add: one_malloc_result one_malloc_body one_malloc_tracker)
qed

theorem timeline_not_copied_witness:
  "(\<exists>r. analyze None ''c'' clock (JStr one_malloc) = Inr r \<and> timeline r = []) \<and>
   length (body (parse None ''c'' one_malloc)) = 1 \<and>
   this_timeline (tracker_after None ''c'' clock one_malloc) = [\<lparr>s_line = 1, s_memory = 4\<rparr>]"
  using timeline_not_copied [of None clock None "''c''" clock one_malloc "JStr one_malloc"]
  by simp

subsection \<open>Reassignment\<close>

lemma reassign_one_line_result:
  "analyze acorn ''c'' now (JStr reassign_one_line) =
    Inr \<lparr>allocations = [malloc_p 1 10 reassign_one_line (now 0)],
      frees = [],
      leaks = [end_leak ''p'' (malloc_p 1 10 reassign_one_line (now 0))],
      warnings = [], timeline = []\<rparr>"
  by code_simp

lemma reassign_two_lines_result:
  "analyze acorn ''c'' now (JStr reassign_two_lines) =
    Inr \<lparr>allocations =
        [malloc_p 1 10 ''int *p = malloc(10);'' (now 0),
         malloc_p 2 20 ''p = malloc(20);'' (now 1)],
      frees = [],
      leaks = [reassign_leak ''p'' (malloc_p 2 20 ''p = malloc(20);'' (now 1))
                 (malloc_p 1 10 ''int *p = malloc(10);'' (now 0)),
               end_leak ''p'' (malloc_p 2 20 ''p = malloc(20);'' (now 1))],
      warnings = [], timeline = []\<rparr>"
  by code_simp

text \<open>
  Against claim C3 as it is stated: on the one line
  \<open>int *p = malloc(10); p = malloc(20);\<close> the result does not hold two leaks.
\<close>

theorem reassignment_one_line_counterexample:
  "\<not> (\<exists>r. analyze None ''c'' clock (JStr reassign_one_line) = Inr r \<and>
          length (leaks r) = 2 \<and> length (frees r) = 0)"
  by (simp add: reassign_one_line_result)

text \<open>
  Claim C3, amended.  The parser reads a line that ends in \<open>;\<close> as one statement and takes
  the first allocation it matches there.  With the two statements on two lines the result
  holds exactly two leaks and no free: the leak of the allocation of line 1, of 10 bytes,
  reported at the reassignment on line 2, and the leak at the end of the allocation of
  line 2, of 20 bytes.  With both statements on one line only the first allocation is
  extracted, and the result holds exactly one leak, the one at the end for the 10 bytes,
  and no free.
\<close>

theorem reassignment_detection:
  "(\<exists>r a1 a2.
      analyze acorn ''c'' now (JStr reassign_two_lines) = Inr r \<and>
      allocations r = [a1, a2] \<and> a_line a1 = 1 \<and> a_size a1 = 10 \<and>
      a_line a2 = 2 \<and> a_size a2 = 20 \<and>
      leaks r = [reassign_leak ''p'' a2 a1, end_leak ''p'' a2] \<and> frees r = []) \<and>
   (\<exists>r a.
      analyze acorn ''c'' now (JStr reassign_one_line) = Inr r \<and>
      allocations r = [a] \<and> a_line a = 1 \<and> a_size a = 10 \<and>
      leaks r = [end_leak ''p'' a] \<and> frees r = [])"
  by (simp add: reassign_one_line_result reassign_two_lines_result malloc_p_def)

theorem reassignment_detection_witness:
  "(\<exists>r a1 a2.
      analyze None ''c'' clock (JStr reassign_two_lines) = Inr r \<and>
      allocations r = [a1, a2] \<and> a_line a1 = 1 \<and> a_size a1 = 10 \<and>
      a_line a2 = 2 \<and> a_size a2 = 20 \<and>
      leaks r = [reassign_leak ''p'' a2 a1, end_leak ''p'' a2] \<and> frees r = []) \<and>
   (\<exists>r a.
      analyze None ''c'' clock (JStr reassign_one_line) = Inr r \<and>
      allocations r = [a] \<and> a_line a = 1 \<and> a_size a = 10 \<and>
      leaks r = [end_leak ''p'' a] \<and> frees r = [])"
  by (rule reassignment_detection)

subsection \<open>Double free\<close>

lemma double_free_one_line_result:
  "analyze acorn ''c'' now (JStr double_free_one_line) =
    Inr \<lparr>allocations = [malloc_p 1 4 double_free_one_line (now 0)],
      frees = [\<lparr>f_var = ''p'', f_line = 1, f_lineText = double_free_one_line,
                freedAllocId = allocId (malloc_p 1 4 double_free_one_line (now 0))\<rparr>],
      leaks = [], warnings = [], timeline = []\<rparr>"
  by code_simp

lemma double_free_three_lines_result:
  "analyze acorn ''c'' now (JStr double_free_three_lines) =
    Inr \<lparr>allocations = [malloc_p 1 4 ''int *p = malloc(4);'' (now 0)],
      frees = [\<lparr>f_var = ''p'', f_line = 2, f_lineText = ''free(p);'',
                freedAllocId = allocId (malloc_p 1 4 ''int *p = malloc(4);'' (now 0))\<rparr>],
      leaks = [],
      warnings = [potential_double_free ''p'' (free_p 3)],
      timeline = []\<rparr>"
  by code_simp

lemma handleFree_unallocated:
  "fe_var free = Some v \<Longrightarrow> v \<noteq> [] \<Longrightarrow> map_of (this_allocations tr) v = None \<Longrightarrow>
   handleFree tr an free = (tr, an\<lparr>warnings := warnings an @ [potential_double_free v free]\<rparr>)"
  by (simp add: handleFree_def potential_double_free_def)

text \<open>
  Against claim C4 as it is stated: on the one line
  \<open>int *p = malloc(4); free(p); free(p);\<close> the result does not hold one warning of a
  double free.
\<close>

theorem double_free_one_line_counterexample:
  "\<not> (\<exists>r. analyze None ''c'' clock (JStr double_free_one_line) = Inr r \<and>
          length (double_free_warnings r) = 1 \<and> length (frees r) = 1)"
  by (simp add: double_free_one_line_result double_free_warnings_def)

text \<open>
  Claim C4, amended.  The parser takes the first deallocation it matches in a statement.
  With the three statements on three lines the result holds exactly one free, of line 2,
  and exactly one warning, of type \<open>Potential Double Free\<close>, for line 3.  With the three
  statements on one line only the first \<open>free\<close> is extracted, and the result holds exactly
  one free and no warning.  In general \<open>handleFree\<close>, for a variable with a non-empty name
  and no entry in \<open>this.allocations\<close>, pushes that warning and leaves the analyzer's fields
  as they are.
\<close>

theorem double_free_detection:
  "(\<exists>r f w. analyze acorn ''c'' now (JStr double_free_three_lines) = Inr r \<and>
      frees r = [f] \<and> f_line f = 2 \<and> warnings r = [w] \<and> double_free_warnings r = [w] \<and>
      w_type w = ''Potential Double Free'' \<and> w_line w = 3) \<and>
   (\<exists>r f. analyze acorn ''c'' now (JStr double_free_one_line) = Inr r \<and>
      frees r = [f] \<and> warnings r = []) \<and>
   (fe_var free = Some v \<and> v \<noteq> [] \<and> map_of (this_allocations tr) v = None \<longrightarrow>
      handleFree tr an free =
        (tr, an\<lparr>warnings := warnings an @ [potential_double_free v free]\<rparr>))"
  by (simp add: double_free_one_line_result double_free_three_lines_result
      double_free_warnings_def potential_double_free_def free_p_def handleFree_unallocated)

theorem double_free_detection_witness:
  "(\<exists>r f w. analyze None ''c'' clock (JStr double_free_three_lines) = Inr r \<and>
      frees r = [f] \<and> f_line f = 2 \<and> warnings r = [w] \<and> double_free_warnings r = [w] \<and>
      w_type w = ''Potential Double Free'' \<and> w_line w = 3) \<and>
   (\<exists>r f. analyze None ''c'' clock (JStr double_free_one_line) = Inr r \<and>
      frees r = [f] \<and> warnings r = []) \<and>
   handleFree new_tracker new_analysis (free_p 3) =
     (new_tracker,
      new_analysis\<lparr>warnings := warnings new_analysis @ [potential_double_free ''p'' (free_p 3)]\<rparr>)"
  using double_free_detection [of None clock "free_p 3" "''p''" new_tracker new_analysis]
  by (simp add: new_tracker_def free_p_def)

subsection \<open>Clean pairing\<close>

lemma clean_pair_result:
  "analyze acorn ''c'' now (JStr clean_pair) =
    Inr \<lparr>allocations = [malloc_p 1 4 clean_pair (now 0)],
      frees = [\<lparr>f_var = ''p'', f_line = 1, f_lineText = clean_pair,
                freedAllocId = allocId (malloc_p 1 4 clean_pair (now 0))\<rparr>],
      leaks = [], warnings = [], timeline = []\<rparr>"
  by code_simp

text \<open>
  Claim C5.  For the C input \<open>int *p = malloc(4); free(p);\<close> the result of \<open>analyze\<close> holds
  exactly one allocation, exactly one free whose \<open>freedAllocId\<close> is the \<open>allocId\<close> of that
  allocation, no leak and no warning, whatever \<open>Date.now()\<close> returns.
\<close>

theorem clean_pairing:
  "\<exists>r a f. analyze acorn ''c'' now (JStr clean_pair) = Inr r \<and>
     allocations r = [a] \<and> frees r = [f] \<and> freedAllocId f = allocId a \<and>
     leaks r = [] \<and> warnings r = []"
  by (simp add: clean_pair_result)

theorem clean_pairing_witness:
  "\<exists>r a f. analyze None ''c'' clock (JStr clean_pair) = Inr r \<and>
     allocations r = [a] \<and> frees r = [f] \<and> freedAllocId f = allocId a \<and>
     leaks r = [] \<and> warnings r = []"
  by (rule clean_pairing)

subsection \<open>Size estimation for \<open>malloc\<close>\<close>

lemma malloc_sizeof_result:
  "analyze acorn ''c'' now (JStr malloc_sizeof) =
    Inr \<lparr>allocations =
        [\<lparr>a_var = Some ''a'', a_line = 1, a_function = Some ''malloc'', a_size = 10,
          a_lineText = malloc_sizeof, a_inLoop = False, a_inFunction = False,
          a_functionName = Some ''malloc'', allocId = ''a_line1_'' @ show_nat (now 0),
          a_language = ''c''\<rparr>],
      frees = [],
      leaks = [\<lparr>l_var = ''a'', l_line = 1, l_function = ''malloc'', l_size = 10,
                l_inLoop = False,
                l_fix = ''Add free(a); before function return or at appropriate cleanup point.''\<rparr>],
      warnings = [], timeline = []\<rparr>"
  by code_simp

lemma malloc_10_result:
  "analyze acorn ''c'' now (JStr malloc_10) =
    Inr \<lparr>allocations =
        [\<lparr>a_var = Some ''b'', a_line = 1, a_function = Some ''malloc'', a_size = 10,
          a_lineText = malloc_10, a_inLoop = False, a_inFunction = False,
          a_functionName = Some ''malloc'', allocId = ''b_line1_'' @ show_nat (now 0),
          a_language = ''c''\<rparr>],
      frees = [],
      leaks = [\<lparr>l_var = ''b'', l_line = 1, l_function = ''malloc'', l_size = 10,
                l_inLoop = False,
                l_fix = ''Add free(b); before function return or at appropriate cleanup point.''\<rparr>],
      warnings = [], timeline = []\<rparr>"
  by code_simp

lemma malloc_sizeof_args:
  "map n_args (body (parse acorn ''c'' malloc_sizeof)) = [Some (ArgsStr ''10 * sizeof(int'')]"
  by code_simp

lemma whole_sizeof_argument:
  "c_size_after_calloc ''c'' node ''10 * sizeof(int)'' = 40"
  by code_simp

text \<open>
  Claim C6.  For \<open>int *a = malloc(10 * sizeof(int));\<close> the claim says 40 bytes.  The
  argument text that \<open>parseCAllocation\<close> captures ends before the first closing
  parenthesis: it is \<open>10 * sizeof(int\<close>, which neither \<open>sizeof\<close> expression of
  \<open>calculateSizeFromAST\<close> matches, and the estimate is the first integer, 10.  On the
  whole argument text \<open>10 * sizeof(int)\<close> the same function gives 40, the count times
  the size of the type.  For \<open>char *b = malloc(10);\<close> the estimate is 10, as the claim says.
\<close>

theorem sizeof_argument_cut_short:
  "(\<exists>r a. analyze acorn ''c'' now (JStr malloc_sizeof) = Inr r \<and>
      allocations r = [a] \<and> a_size a = 10) \<and>
   (\<exists>r b. analyze acorn ''c'' now (JStr malloc_10) = Inr r \<and>
      allocations r = [b] \<and> a_size b = 10) \<and>
   map n_args (body (parse acorn ''c'' malloc_sizeof)) = [Some (ArgsStr ''10 * sizeof(int'')] \<and>
   c_size_after_calloc ''c'' node ''10 * sizeof(int)'' = 40"
  by (simp add: malloc_sizeof_result malloc_10_result malloc_sizeof_args whole_sizeof_argument)

theorem sizeof_argument_cut_short_witness:
  "(\<exists>r a. analyze None ''c'' clock (JStr malloc_sizeof) = Inr r \<and>
      allocations r = [a] \<and> a_size a = 10) \<and>
   (\<exists>r b. analyze None ''c'' clock (JStr malloc_10) = Inr r \<and>
      allocations r = [b] \<and> a_size b = 10) \<and>
   map n_args (body (parse None ''c'' malloc_sizeof)) = [Some (ArgsStr ''10 * sizeof(int'')] \<and>
   c_size_after_calloc ''c'' (dealloc_node None 0 [] []) ''10 * sizeof(int)'' = 40"
  by (rule sizeof_argument_cut_short)

subsection \<open>Size estimation for \<open>new\<close>\<close>

lemma new_array_10_result:
  "analyze acorn ''cpp'' now (JStr new_array_10) =
    Inr \<lparr>allocations =
        [\<lparr>a_var = Some ''a'', a_line = 1, a_function = Some ''new[]'', a_size = 1,
          a_lineText = new_array_10, a_inLoop = False, a_inFunction = False,
          a_functionName = None, allocId = ''a_line1_'' @ show_nat (now 0),
          a_language = ''cpp''\<rparr>],
      frees = [],
      leaks = [\<lparr>l_var = ''a'', l_line = 1, l_function = ''new[]'', l_size = 1,
                l_inLoop = False,
                l_fix = ''Add free(a); before function return or at appropriate cleanup point.''\<rparr>],
      warnings = [], timeline = []\<rparr>"
  by code_simp

lemma new_with_index_result:
  "analyze acorn ''cpp'' now (JStr new_with_index) =
    Inr \<lparr>allocations =
        [\<lparr>a_var = Some ''q'', a_line = 1, a_function = Some ''new[]'', a_size = 3,
          a_lineText = new_with_index, a_inLoop = False, a_inFunction = False,
          a_functionName = Some ''Foo'', allocId = ''q_line1_'' @ show_nat (now 0),
          a_language = ''cpp''\<rparr>],
      frees = [],
      leaks = [\<lparr>l_var = ''q'', l_line = 1, l_function = ''new[]'', l_size = 3,
                l_inLoop = False,
                l_fix = ''Add free(q); before function return or at appropriate cleanup point.''\<rparr>],
      warnings = [], timeline = []\<rparr>"
  by code_simp

lemma new_scalar_5_result:
  "analyze acorn ''cpp'' now (JStr new_scalar_5) =
    Inr \<lparr>allocations =
        [\<lparr>a_var = Some ''p'', a_line = 1, a_function = Some ''new'', a_size = 5,
          a_lineText = new_scalar_5, a_inLoop = False, a_inFunction = False,
          a_functionName = Some ''int'', allocId = ''p_line1_'' @ show_nat (now 0),
          a_language = ''cpp''\<rparr>],
      frees = [],
      leaks = [\<lparr>l_var = ''p'', l_line = 1, l_function = ''new'', l_size = 5,
                l_inLoop = False,
                l_fix = ''Add free(p); before function return or at appropriate cleanup point.''\<rparr>],
      warnings = [], timeline = []\<rparr>"
  by code_simp

text \<open>
  In \<open>calculateSizeFromAST\<close> the search for the first integer of the arguments returns
  before the cases for \<open>new[]\<close> and \<open>new\<close> are reached, so the case that multiplies the
  count by the default size never returns: an array form is estimated at the first
  integer of its arguments, or at 1 when there is none.
\<close>

lemma array_new_never_scaled:
  assumes "n_function node = Some ''new[]''"
    and "js_match sizeofPattern1 args = None" and "js_match sizeofPattern2 args = None"
  shows "calculateSizeFromAST ''cpp'' node args =
         (case js_match re_number args of
            Some m \<Rightarrow> or_one (parseInt (to_str (group 1 m)))
          | None \<Rightarrow> 1)"
  using assms
  by (simp add: calculateSizeFromAST_def c_size_after_calloc_def split: option.splits)

text \<open>
  Claim C7.  The claim says that an array form is estimated at its element count times
  4 and a scalar form at 4.  Under the language \<open>cpp\<close>, \<open>int *a = new int[10];\<close> is an
  event of function \<open>new[]\<close> with empty arguments and is estimated at 1;
  \<open>int *q = new Foo(arr[3]);\<close> is an event of function \<open>new[]\<close> with the arguments
  \<open>arr[3]\<close> and is estimated at 3, not 12; \<open>int *p = new int(5);\<close> is an event of function
  \<open>new\<close> and is estimated at 5, not 4.
\<close>

theorem new_sizes_not_scaled:
  "(\<exists>r a. analyze acorn ''cpp'' now (JStr new_array_10) = Inr r \<and> allocations r = [a] \<and>
      a_function a = Some ''new[]'' \<and> a_size a = 1) \<and>
   (\<exists>r a. analyze acorn ''cpp'' now (JStr new_with_index) = Inr r \<and> allocations r = [a] \<and>
      a_function a = Some ''new[]'' \<and> a_size a = 3) \<and>
   (\<exists>r a. analyze acorn ''cpp'' now (JStr new_scalar_5) = Inr r \<and> allocations r = [a] \<and>
      a_function a = Some ''new'' \<and> a_size a = 5)"
  by (simp add: new_array_10_result new_with_index_result new_scalar_5_result)

theorem new_sizes_not_scaled_witness:
  "(\<exists>r a. analyze None ''cpp'' clock (JStr new_array_10) = Inr r \<and> allocations r = [a] \<and>
      a_function a = Some ''new[]'' \<and> a_size a = 1) \<and>
   (\<exists>r a. analyze None ''cpp'' clock (JStr new_with_index) = Inr r \<and> allocations r = [a] \<and>
      a_function a = Some ''new[]'' \<and> a_size a = 3) \<and>
   (\<exists>r a. analyze None ''cpp'' clock (JStr new_scalar_5) = Inr r \<and> allocations r = [a] \<and>
      a_function a = Some ''new'' \<and> a_size a = 5)"
  by (rule new_sizes_not_scaled)

subsection \<open>A language that is not recognized\<close>

lemma map_of_retag_map:
  "map_of (retag_map L m) k = map_option (map (retag_alloc L)) (map_of m k)"
  by (induction m) (auto simp: retag_map_def)

lemma map_set_retag_map:
  "map_set (retag_map L m) k (map (retag_alloc L) xs) = retag_map L (map_set m k xs)"
  by (induction m) (auto simp: retag_map_def)

lemma map_delete_retag_map:
  "map_delete (retag_map L m) k = retag_map L (map_delete m k)"
  by (induction m) (auto simp: retag_map_def map_delete_def)

lemma unrecognized_parse:
  "language \<notin> set recognized_languages \<Longrightarrow> parse acorn language code = parse acorn ''c'' code"
  by (simp add: parse_def recognized_languages_def parseGeneric_def Let_def)

lemma unrecognized_size:
  "language \<notin> set recognized_languages \<Longrightarrow> calculateSizeFromAST language node args = 1"
  by (simp add: calculateSizeFromAST_def recognized_languages_def Let_def)

lemma unrecognized_allocation:
  "language \<notin> set recognized_languages \<Longrightarrow>
   processASTAllocation language t node code =
   retag_alloc language (processASTAllocation ''c'' t node code)"
  by (simp add: processASTAllocation_def unrecognized_size retag_alloc_def Let_def)

lemma unrecognized_deallocation:
  "processASTDeallocation language node code =
   (processASTDeallocation ''c'' node code)\<lparr>fe_language := language\<rparr>"
  by (simp add: processASTDeallocation_def)

lemma reassign_leak_retag:
  "reassign_leak v (retag_alloc L a) (retag_alloc L old) = retag_leak (reassign_leak v a old)"
  by (simp add: reassign_leak_def retag_alloc_def retag_leak_def)

lemma end_leak_retag:
  "end_leak v (retag_alloc L a) = retag_leak (end_leak v a)"
  by (auto simp: end_leak_def retag_alloc_def retag_leak_def Let_def)

lemma evict_previous_retag:
  assumes "this_allocations tr' = retag_map L (this_allocations tr)"
  shows "this_allocations (fst (evict_previous tr' (retag_analysis L an) v (retag_alloc L a))) =
           retag_map L (this_allocations (fst (evict_previous tr an v a))) \<and>
         snd (evict_previous tr' (retag_analysis L an) v (retag_alloc L a)) =
           retag_analysis L (snd (evict_previous tr an v a))"
  using assms
  by (cases "map_of (this_allocations tr) v")
     (simp_all add: evict_previous_def map_of_retag_map Let_def last_map map_butlast [symmetric]
        map_set_retag_map retag_analysis_def reassign_leak_retag)

lemma push_allocation_retag:
  assumes "this_allocations tr' = retag_map L (this_allocations tr)"
  shows "this_allocations (fst (push_allocation tr' (retag_analysis L an) v (retag_alloc L a))) =
           retag_map L (this_allocations (fst (push_allocation tr an v a))) \<and>
         snd (push_allocation tr' (retag_analysis L an) v (retag_alloc L a)) =
           retag_analysis L (snd (push_allocation tr an v a))"
proof -
  have s: "map_set (retag_map L m) v [] = retag_map L (map_set m v [])" for m
    using map_set_retag_map [of L m v "[]"] by simp
  have s1: "map_set (retag_map L m) v (map (retag_alloc L) xs @ [retag_alloc L a]) =
            retag_map L (map_set m v (xs @ [a]))" for m xs
    using map_set_retag_map [of L m v "xs @ [a]"] by simp
  have s2: "map_set (retag_map L m) v [retag_alloc L a] = retag_map L (map_set m v [a])" for m
    using map_set_retag_map [of L m v "[a]"] by simp
  show ?thesis
    using assms
    by (cases "map_of (this_allocations tr) v")
       (simp_all add: push_allocation_def map_has_def map_of_retag_map s s1 s2
          map_of_map_set retag_analysis_def)
qed

lemma handleAllocation_retag:
  assumes "this_allocations tr' = retag_map L (this_allocations tr)"
  shows "this_allocations (fst (handleAllocation tr' (retag_analysis L an) (retag_alloc L a))) =
           retag_map L (this_allocations (fst (handleAllocation tr an a))) \<and>
         snd (handleAllocation tr' (retag_analysis L an) (retag_alloc L a)) =
           retag_analysis L (snd (handleAllocation tr an a))"
proof (cases "a_var a")
  case None
  then show ?thesis using assms by (simp add: handleAllocation_def retag_alloc_def)
next
  case (Some v)
  have var: "a_var (retag_alloc L a) = Some v"
    using Some by (simp add: retag_alloc_def)
  show ?thesis
    using assms Some var evict_previous_retag [OF assms, of an v a]
      push_allocation_retag
        [of "fst (evict_previous tr' (retag_analysis L an) v (retag_alloc L a))" L
            "fst (evict_previous tr an v a)" "snd (evict_previous tr an v a)" v a]
    by (simp add: handleAllocation_def case_prod_beta)
qed

lemma handleFree_retag:
  assumes "this_allocations tr' = retag_map L (this_allocations tr)"
  shows "this_allocations (fst (handleFree tr' (retag_analysis L an) (f\<lparr>fe_language := L\<rparr>))) =
           retag_map L (this_allocations (fst (handleFree tr an f))) \<and>
         snd (handleFree tr' (retag_analysis L an) (f\<lparr>fe_language := L\<rparr>)) =
           retag_analysis L (snd (handleFree tr an f))"
proof (cases "fe_var f")
  case None
  then show ?thesis using assms by (simp add: handleFree_def)
next
  case (Some v)
  show ?thesis
  proof (cases "map_of (this_allocations tr) v")
    case None
    then show ?thesis
      using assms Some by (simp add: handleFree_def map_of_retag_map retag_analysis_def)
  next
    case (Some xs)
    have i: "allocId (last (map (retag_alloc L) xs)) = allocId (last xs)" if "xs \<noteq> []"
      using that by (simp add: last_map retag_alloc_def)
    show ?thesis
      using assms \<open>fe_var f = Some v\<close> Some
      by (simp add: handleFree_def map_of_retag_map retag_analysis_def Let_def i
          map_butlast [symmetric] map_set_retag_map map_delete_retag_map)
  qed
qed

lemma process_node_retag:
  assumes "language \<notin> set recognized_languages"
    and "this_allocations (fst st') = retag_map language (this_allocations (fst st))"
    and "snd st' = retag_analysis language (snd st)"
  shows "this_allocations (fst (process_node language now code st' i node)) =
           retag_map language (this_allocations (fst (process_node ''c'' now code st i node))) \<and>
         snd (process_node language now code st' i node) =
           retag_analysis language (snd (process_node ''c'' now code st i node))"
proof (cases "n_type node")
  case Allocation
  then show ?thesis
    using handleAllocation_retag
        [OF assms(2), of "snd st" "processASTAllocation ''c'' (now i) node code"]
      assms(1,3)
    by (simp add: process_node_def case_prod_beta unrecognized_allocation updateTimeline_def)
next
  case Deallocation
  then show ?thesis
    using handleFree_retag [OF assms(2), of "snd st" "processASTDeallocation ''c'' node code"]
      assms(3) unrecognized_deallocation [of language node code]
    by (simp add: process_node_def case_prod_beta updateTimeline_def)
qed

lemma process_nodes_retag:
  assumes "language \<notin> set recognized_languages"
  shows "this_allocations (fst st') = retag_map language (this_allocations (fst st)) \<Longrightarrow>
         snd st' = retag_analysis language (snd st) \<Longrightarrow>
         this_allocations (fst (process_nodes language now code st' i ns)) =
           retag_map language (this_allocations (fst (process_nodes ''c'' now code st i ns))) \<and>
         snd (process_nodes language now code st' i ns) =
           retag_analysis language (snd (process_nodes ''c'' now code st i ns))"
proof (induction ns arbitrary: st st' i)
  case Nil
  then show ?case by simp
next
  case (Cons node ns)
  show ?case
    using Cons.IH [of "process_node language now code st' i node"
                      "process_node ''c'' now code st i node" "i + 1"]
      process_node_retag [OF assms Cons.prems, of now code i node]
    by simp
qed

lemma detectCodeQualityIssues_retag:
  "detectCodeQualityIssues l n ol (retag_analysis L an) =
   retag_analysis L (detectCodeQualityIssues l n ol an)"
  by (simp add: detectCodeQualityIssues_def retag_analysis_def)

lemma scan_lines_retag:
  "scan_lines (retag_analysis L an) i ls = retag_analysis L (scan_lines an i ls)"
  by (induction ls arbitrary: an i) (simp_all add: detectCodeQualityIssues_retag)

lemma findLeaks_retag:
  assumes "this_allocations tr' = retag_map L (this_allocations tr)"
  shows "findLeaks tr' (retag_analysis L an) = retag_analysis L (findLeaks tr an)"
proof -
  have "concat (map (\<lambda>(varName, allocs). map (end_leak varName) allocs) (retag_map L m)) =
        map retag_leak (concat (map (\<lambda>(varName, allocs). map (end_leak varName) allocs) m))"
    for m
    by (induction m) (auto simp: retag_map_def end_leak_retag comp_def)
  then show ?thesis
    using assms by (simp add: findLeaks_def retag_analysis_def)
qed

lemma malloc_10_sizes_other:
  "map_sum id (\<lambda>r. (map a_size (allocations r), map l_size (leaks r)))
     (analyze None ''other'' clock (JStr malloc_10)) = Inr ([1], [1])"
  by code_simp

lemma malloc_10_sizes_c:
  "map_sum id (\<lambda>r. (map a_size (allocations r), map l_size (leaks r)))
     (analyze None ''c'' clock (JStr malloc_10)) = Inr ([10], [10])"
  by code_simp

text \<open>
  Against claim C8 as it is stated: for \<open>char *b = malloc(10);\<close> the results under the
  language \<open>other\<close> and under \<open>c\<close> differ in more than the allocation id, namely in the
  estimated sizes.
\<close>

theorem unrecognized_language_counterexample:
  "\<not> (\<exists>r r'. analyze None ''other'' clock (JStr malloc_10) = Inr r \<and>
              analyze None ''c'' clock (JStr malloc_10) = Inr r' \<and>
              map a_size (allocations r) = map a_size (allocations r') \<and>
              map l_size (leaks r) = map l_size (leaks r'))"
proof
  assume "\<exists>r r'. analyze None ''other'' clock (JStr malloc_10) = Inr r \<and>
            analyze None ''c'' clock (JStr malloc_10) = Inr r' \<and>
            map a_size (allocations r) = map a_size (allocations r') \<and>
            map l_size (leaks r) = map l_size (leaks r')"
  then obtain r r' where h: "analyze None ''other'' clock (JStr malloc_10) = Inr r"
    "analyze None ''c'' clock (JStr malloc_10) = Inr r'"
    "map a_size (allocations r) = map a_size (allocations r')"
    by blast
  from malloc_10_sizes_other malloc_10_sizes_c h show False by simp
qed

text \<open>
  Claim C8, amended.  For every source text, a language outside the recognized ones gives
  the parser's result for \<open>c\<close>, the line scan, and \<open>analyze\<close> returns the result for \<open>c\<close> with
  the same allocations, frees, leaks and warnings in the same order, except that the size
  estimate has no case for such a language: every allocation is estimated at 1 byte, so
  is every leak, and every allocation carries the name of the language.
\<close>

theorem unrecognized_language_like_c:
  assumes "language \<notin> set recognized_languages"
  shows "parse acorn language s = parse acorn ''c'' s \<and>
         analyze acorn language now code =
           map_sum id (retag_analysis language) (analyze acorn ''c'' now code)"
proof -
  have init: "this_allocations (fst (new_tracker, new_analysis)) =
                retag_map language (this_allocations (fst (new_tracker, new_analysis)))"
    "snd (new_tracker, new_analysis) = retag_analysis language (snd (new_tracker, new_analysis))"
    by (simp_all add: new_tracker_def new_analysis_def retag_map_def retag_analysis_def)
  have run: "this_allocations (fst (process_nodes language now c (new_tracker, new_analysis) 0 ns)) =
           retag_map language
             (this_allocations (fst (process_nodes ''c'' now c (new_tracker, new_analysis) 0 ns))) \<and>
         snd (process_nodes language now c (new_tracker, new_analysis) 0 ns) =
           retag_analysis language (snd (process_nodes ''c'' now c (new_tracker, new_analysis) 0 ns))"
    for c ns
    using process_nodes_retag [OF assms init] by blast
  have res: "findLeaks (fst (process_nodes language now c (new_tracker, new_analysis) 0 ns))
               (scan_lines (snd (process_nodes language now c (new_tracker, new_analysis) 0 ns))
                  0 ls) =
             retag_analysis language
               (findLeaks (fst (process_nodes ''c'' now c (new_tracker, new_analysis) 0 ns))
                  (scan_lines (snd (process_nodes ''c'' now c (new_tracker, new_analysis) 0 ns))
                     0 ls))" for c ns ls
    using run [of c ns] by (simp add: scan_lines_retag findLeaks_retag)
  show ?thesis
    by (cases code)
       (simp_all add: unrecognized_parse [OF assms] analyze_def analyze_with_def
          analyze_body_def Let_def res)
qed

theorem unrecognized_language_like_c_witness:
  "parse None ''other'' malloc_10 = parse None ''c'' malloc_10 \<and>
   analyze None ''other'' clock (JStr malloc_10) =
     map_sum id (retag_analysis ''other'') (analyze None ''c'' clock (JStr malloc_10))"
  using unrecognized_language_like_c [of "''other''" None malloc_10 clock "JStr malloc_10"]
  by (simp add: recognized_languages_def)

subsection \<open>The quality scan\<close>

lemma detect_step:
  "detectCodeQualityIssues line lineNum originalLine an =
     (if unsafe_line line
      then an\<lparr>warnings := warnings an @ [unsafe_function_warning lineNum originalLine]\<rparr>
      else an)"
  by (cases line) (simp_all add: detectCodeQualityIssues_def unsafe_line_def
      unsafe_function_warning_def)

lemma scan_lines_unsafe_count:
  "length (filter (\<lambda>w. w_type w = ''Unsafe Function'') (warnings (scan_lines an i ls))) =
   length (filter (\<lambda>w. w_type w = ''Unsafe Function'') (warnings an)) +
   length (filter unsafe_line ls)"
proof (induction ls arbitrary: an i)
  case Nil
  then show ?case by simp
next
  case (Cons l ls)
  then show ?case by (simp add: detect_step unsafe_function_warning_def)
qed

lemma handleAllocation_warnings:
  "warnings (snd (handleAllocation tr an a)) = warnings an"
  by (simp add: handleAllocation_def evict_previous_def push_allocation_def Let_def
      case_prod_beta split: option.splits)

lemma handleFree_warnings:
  "list_all free_warning (warnings an) \<Longrightarrow>
   list_all free_warning (warnings (snd (handleFree tr an f)))"
  by (simp add: handleFree_def Let_def free_warning_def split: option.splits)

lemma process_node_warnings:
  "list_all free_warning (warnings (snd st)) \<Longrightarrow>
   list_all free_warning (warnings (snd (process_node language now code st i node)))"
  by (cases "n_type node")
     (simp_all add: process_node_def case_prod_beta handleAllocation_warnings
        handleFree_warnings)

lemma process_nodes_warnings:
  "list_all free_warning (warnings (snd st)) \<Longrightarrow>
   list_all free_warning (warnings (snd (process_nodes language now code st i ns)))"
  by (induction ns arbitrary: st i) (simp_all add: process_node_warnings)

lemma no_unsafe_among_free_warnings:
  "list_all free_warning xs \<Longrightarrow> filter (\<lambda>w. w_type w = ''Unsafe Function'') xs = []"
  by (induction xs) (auto simp: free_warning_def)

text \<open>
  Against claim C9 as it is stated: a line with two calls of \<open>strcpy\<close> gets one warning,
  not two, and a line with a call of \<open>strcpy\<close> and a call of \<open>strncpy\<close> gets none, not one.
\<close>

theorem unsafe_function_counterexample:
  "length (unsafe_function_warnings (detectCodeQualityIssues two_copies 1 two_copies new_analysis))
     \<noteq> spec_occurrences ''strcpy('' two_copies \<and>
   length (unsafe_function_warnings
             (detectCodeQualityIssues mixed_copies 1 mixed_copies new_analysis))
     \<noteq> spec_occurrences ''strcpy('' mixed_copies"
  by code_simp

text \<open>
  Claim C9, amended.  The scan is by line, not by occurrence: for every raw source line
  it pushes exactly one warning of type \<open>Unsafe Function\<close> when the line contains
  \<open>strcpy(\<close> and nowhere contains \<open>strncpy\<close>, and none otherwise, whatever the state of the
  analyzer; and the result of \<open>analyze\<close> on a non-empty text holds as many warnings of that
  type as the text has such lines, whatever events the text holds.
\<close>

theorem unsafe_function_per_line:
  "detectCodeQualityIssues line lineNum line an =
     (if unsafe_line line
      then an\<lparr>warnings := warnings an @ [unsafe_function_warning lineNum line]\<rparr>
      else an) \<and>
   (s \<noteq> [] \<longrightarrow>
     (\<exists>r. analyze acorn language now (JStr s) = Inr r \<and>
        length (unsafe_function_warnings r) = length (filter unsafe_line (split_lines s))))"
proof -
  let ?st = "process_nodes language now s (new_tracker, new_analysis) 0
               (body (parse acorn language s))"
  have "list_all free_warning (warnings (snd ?st))"
    by (rule process_nodes_warnings) (simp add: new_analysis_def)
  then have "filter (\<lambda>w. w_type w = ''Unsafe Function'') (warnings (snd ?st)) = []"
    by (rule no_unsafe_among_free_warnings)
  then have "length (filter (\<lambda>w. w_type w = ''Unsafe Function'')
                (warnings (scan_lines (snd ?st) 0 (split_lines s)))) =
             length (filter unsafe_line (split_lines s))"
    by (simp add: scan_lines_unsafe_count)
  then show ?thesis
    by (simp add: detect_step analyze_def analyze_with_def analyze_body_def Let_def
        findLeaks_def unsafe_function_warnings_def)
qed

lemma two_copies_lines:
  "two_copies \<noteq> [] \<and> unsafe_line two_copies \<and>
   length (filter unsafe_line (split_lines two_copies)) = 1"
  by code_simp

theorem unsafe_function_per_line_witness:
  "detectCodeQualityIssues two_copies 1 two_copies new_analysis =
     new_analysis\<lparr>warnings := warnings new_analysis @ [unsafe_function_warning 1 two_copies]\<rparr> \<and>
   (\<exists>r. analyze None ''c'' clock (JStr two_copies) = Inr r \<and>
      length (unsafe_function_warnings r) = 1)"
  using unsafe_function_per_line [of two_copies 1 new_analysis two_copies None "''c''" clock]
    two_copies_lines
  by simp

subsection \<open>The stacks of live allocations\<close>

lemma evict_previous_stacks:
  assumes "stacks_ok tr"
  shows "stacks_ok (fst (evict_previous tr an v a)) \<and>
         (map_of (this_allocations (fst (evict_previous tr an v a))) v = None \<or>
          map_of (this_allocations (fst (evict_previous tr an v a))) v = Some [])"
proof (cases "map_of (this_allocations tr) v")
  case None
  then show ?thesis using assms by (simp add: evict_previous_def)
next
  case (Some xs)
  have len: "length xs \<le> 1"
    using list_all_map_of [OF assms [unfolded stacks_ok_def] Some] by simp
  show ?thesis
  proof (cases "xs = []")
    case True
    then show ?thesis using assms Some by (simp add: evict_previous_def)
  next
    case False
    have "butlast xs = []" using len False by (cases xs) auto
    then show ?thesis
      using assms Some False
      by (simp add: evict_previous_def Let_def stacks_ok_def list_all_map_set map_of_map_set)
  qed
qed

lemma push_allocation_stacks:
  assumes "stacks_ok tr"
    and "map_of (this_allocations tr) v = None \<or> map_of (this_allocations tr) v = Some []"
  shows "stacks_ok (fst (push_allocation tr an v a)) \<and>
         map_of (this_allocations (fst (push_allocation tr an v a))) v = Some [a]"
  using assms
  by (auto simp: push_allocation_def map_has_def stacks_ok_def list_all_map_set map_of_map_set)

lemma handleAllocation_stacks:
  assumes "stacks_ok tr"
  shows "stacks_ok (fst (handleAllocation tr an a))"
proof (cases "a_var a")
  case None
  then show ?thesis using assms by (simp add: handleAllocation_def)
next
  case (Some v)
  show ?thesis
  proof (cases "v = []")
    case True
    then show ?thesis using assms Some by (simp add: handleAllocation_def)
  next
    case False
    have "stacks_ok (fst (push_allocation (fst (evict_previous tr an v a))
                            (snd (evict_previous tr an v a)) v a))"
      using push_allocation_stacks evict_previous_stacks [OF assms] by blast
    then show ?thesis using Some False by (simp add: handleAllocation_def case_prod_beta)
  qed
qed

lemma handleFree_stacks:
  assumes "stacks_ok tr"
  shows "stacks_ok (fst (handleFree tr an f))"
proof -
  have "\<And>v xs. map_of (this_allocations tr) v = Some xs \<Longrightarrow> length (butlast xs) \<le> 1"
    using list_all_map_of [OF assms [unfolded stacks_ok_def]] by fastforce
  then show ?thesis
    using assms
    by (auto simp: handleFree_def Let_def stacks_ok_def list_all_map_set list_all_map_delete
        split: option.splits)
qed

lemma process_node_stacks:
  "stacks_ok (fst st) \<Longrightarrow> stacks_ok (fst (process_node language now code st i node))"
  using handleAllocation_stacks [of "fst st" "snd st"] handleFree_stacks [of "fst st" "snd st"]
  by (cases "n_type node")
     (simp_all add: process_node_def case_prod_beta updateTimeline_def stacks_ok_def)

lemma process_nodes_stacks:
  "stacks_ok (fst st) \<Longrightarrow> stacks_ok (fst (process_nodes language now code st i ns))"
  by (induction ns arbitrary: st i) (simp_all add: process_node_stacks)

lemma handleAllocation_reassign:
  assumes "a_var a = Some v" and "v \<noteq> []" and "map_of (this_allocations tr) v = Some [old]"
  shows "map_of (this_allocations (fst (handleAllocation tr an a))) v = Some [a] \<and>
         leaks (snd (handleAllocation tr an a)) = leaks an @ [reassign_leak v a old]"
  using assms
  by (simp add: handleAllocation_def evict_previous_def push_allocation_def map_has_def
      map_of_map_set Let_def)

text \<open>
  Claim C10.  Every stack of \<open>this.allocations\<close> holds at most one record at all times:
  this holds in a fresh analyzer, \<open>handleAllocation\<close> and \<open>handleFree\<close> keep it, and so it
  holds after any sequence of allocation and deallocation nodes, in particular after
  \<open>analyze\<close> on any source text.  An allocation for a variable whose stack holds a record
  pops that record, reports it as a leak by reassignment, and leaves the new record alone
  on the stack.
\<close>

theorem stacks_hold_at_most_one:
  "stacks_ok new_tracker \<and>
   stacks_ok (fst (process_nodes language now code (new_tracker, new_analysis) 0 ns)) \<and>
   stacks_ok (tracker_after acorn language now s) \<and>
   (stacks_ok tr \<longrightarrow> stacks_ok (fst (handleAllocation tr an a)) \<and>
                       stacks_ok (fst (handleFree tr an f))) \<and>
   (a_var a = Some v \<and> v \<noteq> [] \<and> map_of (this_allocations tr) v = Some [old] \<longrightarrow>
      map_of (this_allocations (fst (handleAllocation tr an a))) v = Some [a] \<and>
      leaks (snd (handleAllocation tr an a)) = leaks an @ [reassign_leak v a old])"
proof -
  have new: "stacks_ok (fst (new_tracker, new_analysis))"
    by (simp add: stacks_ok_def new_tracker_def)
  show ?thesis
    using new process_nodes_stacks [OF new] handleAllocation_stacks handleFree_stacks
      handleAllocation_reassign
    by (simp add: tracker_after_def)
qed

lemma tracker_with_p_facts:
  "stacks_ok tracker_with_p \<and>
   a_var (malloc_p 2 20 ''p = malloc(20);'' 1001) = Some ''p'' \<and>
   map_of (this_allocations tracker_with_p) ''p'' =
     Some [malloc_p 1 10 ''int *p = malloc(10);'' 1000]"
  by (simp add: stacks_ok_def tracker_with_p_def malloc_p_def)

theorem stacks_hold_at_most_one_witness:
  "stacks_ok (fst (process_nodes ''c'' clock reassign_two_lines (new_tracker, new_analysis) 0
                     (body (parse None ''c'' reassign_two_lines)))) \<and>
   stacks_ok (tracker_after None ''c'' clock reassign_two_lines) \<and>
   stacks_ok (fst (handleAllocation tracker_with_p new_analysis
                     (malloc_p 2 20 ''p = malloc(20);'' 1001))) \<and>
   stacks_ok (fst (handleFree tracker_with_p new_analysis (free_p 2))) \<and>
   map_of (this_allocations (fst (handleAllocation tracker_with_p new_analysis
                                    (malloc_p 2 20 ''p = malloc(20);'' 1001)))) ''p'' =
     Some [malloc_p 2 20 ''p = malloc(20);'' 1001] \<and>
   leaks (snd (handleAllocation tracker_with_p new_analysis
                 (malloc_p 2 20 ''p = malloc(20);'' 1001))) =
     leaks new_analysis @
       [reassign_leak ''p'' (malloc_p 2 20 ''p = malloc(20);'' 1001)
          (malloc_p 1 10 ''int *p = malloc(10);'' 1000)]"
  using stacks_hold_at_most_one
      [of "''c''" clock reassign_two_lines "body (parse None ''c'' reassign_two_lines)" None
          reassign_two_lines tracker_with_p new_analysis
          "malloc_p 2 20 ''p = malloc(20);'' 1001" "free_p 2" "''p''"
          "malloc_p 1 10 ''int *p = malloc(10);'' 1000"]
    tracker_with_p_facts
  by simp

end
